theory Spec2Isabelle
  imports Main "HOL-Library.AList"
begin

section \<open>JavaScript values\<close>

text \<open>
  The profile, the value mappings and the values that travel through the field mapper are
  JavaScript values. They are modelled as trees:
  \<^item> numbers are integers (the profile holds counts and amounts; fractions, \<open>NaN\<close> and
    infinities are outside the model);
  \<^item> strings are ASCII character lists;
  \<^item> an object is its kind (plain object, array, \<open>Date\<close>) with the list of its own
    properties in insertion order; an array element is the property whose key is the decimal
    numeral of its index, as in the language itself;
  \<^item> property access sees own data properties only: members found on the prototype chain
    (\<open>constructor\<close>, \<open>__proto__\<close>, methods) and the built-in \<open>length\<close> are not
    reached by a path, and functions are no values (the length of an array is used only
    where the array is printed);
  \<^item> objects are not shared: a value occurs at one place of the tree;
  \<^item> a \<open>Date\<close> is the calendar date of its local time, or invalid (the code reads nothing
    else of it); the local time zone is assumed to skip no calendar day.
\<close>

datatype jsdate = InvalidDate | LocalDate int nat nat

datatype objkind = Plain | Array | DateObj jsdate

datatype jsval =
    JUndefined
  | JNull
  | JBool bool
  | JNum int
  | JStr string
  | JObject objkind "(string \<times> jsval) list"

datatype error = TypeError | Error string | PDFLibError string

text \<open>What the host's \<open>Date\<close> does with a string it is given, and how it prints a date,
  depends on the implementation: both are parameters.\<close>

record host =
  date_parse :: "string \<Rightarrow> jsdate"
  date_toString :: "jsdate \<Rightarrow> string"

fun truthy :: "jsval \<Rightarrow> bool" where
  "truthy JUndefined = False"
| "truthy JNull = False"
| "truthy (JBool b) = b"
| "truthy (JNum n) = (n \<noteq> 0)"
| "truthy (JStr s) = (s \<noteq> [])"
| "truthy (JObject k ps) = True"

fun typeof :: "jsval \<Rightarrow> string" where
  "typeof JUndefined = ''undefined''"
| "typeof JNull = ''object''"
| "typeof (JBool b) = ''boolean''"
| "typeof (JNum n) = ''number''"
| "typeof (JStr s) = ''string''"
| "typeof (JObject k ps) = ''object''"

fun isArray :: "jsval \<Rightarrow> bool" where
  "isArray (JObject Array ps) = True"
| "isArray v = False"



text \<open>Reading \<open>v[key]\<close> where \<open>v\<close> is neither \<open>null\<close> nor \<open>undefined\<close>.\<close>

fun js_get :: "jsval \<Rightarrow> string \<Rightarrow> jsval" where
  "js_get (JObject k ps) key = (case map_of ps key of None \<Rightarrow> JUndefined | Some v \<Rightarrow> v)"
| "js_get v key = JUndefined"

text \<open>The assignment \<open>v[key] = x\<close> in strict mode (class bodies are strict): on an object the
  property is replaced where it stands or appended; on \<open>null\<close>, \<open>undefined\<close> and on a
  primitive it raises a \<open>TypeError\<close>.\<close>

fun js_set :: "jsval \<Rightarrow> string \<Rightarrow> jsval \<Rightarrow> error + jsval" where
  "js_set (JObject k ps) key x = Inr (JObject k (AList.update key x ps))"
| "js_set v key x = Inl TypeError"

subsection \<open>Decimal numerals\<close>

definition is_digit :: "char \<Rightarrow> bool" where
  "is_digit c = (48 \<le> (of_char c :: nat) \<and> (of_char c :: nat) \<le> 57)"

definition digit_val :: "char \<Rightarrow> nat" where
  "digit_val c = of_char c - 48"

definition digit_char :: "nat \<Rightarrow> char" where
  "digit_char d = char_of (48 + d)"

text \<open>The regular expression \<open>/^\d+$/\<close>.\<close>

definition all_digits :: "string \<Rightarrow> bool" where
  "all_digits s = (s \<noteq> [] \<and> list_all is_digit s)"

text \<open>\<open>parseInt(s, 10)\<close> and \<open>Number(s)\<close> on a string of digits (exact below \<open>2^53\<close>).\<close>

definition parseInt :: "string \<Rightarrow> nat" where
  "parseInt s = fold (\<lambda>c n. 10 * n + digit_val c) s 0"

text \<open>\<open>String(n)\<close> for a natural number and for an integer.\<close>

fun show_nat :: "nat \<Rightarrow> string" where
  "show_nat n = (if n < 10 then [digit_char n] else show_nat (n div 10) @ [digit_char (n mod 10)])"

declare show_nat.simps [simp del]

definition show_int :: "int \<Rightarrow> string" where
  "show_int i = (if i < 0 then CHR ''-'' # show_nat (nat (- i)) else show_nat (nat i))"

text \<open>\<open>s.split(sep)\<close> for a one-character separator.\<close>

fun split_on :: "char \<Rightarrow> string \<Rightarrow> string list" where
  "split_on sep [] = [[]]"
| "split_on sep (c # cs) =
     (if c = sep then [] # split_on sep cs
      else (case split_on sep cs of [] \<Rightarrow> [[c]] | p # ps \<Rightarrow> (c # p) # ps))"

section \<open>FieldMapper: path resolution\<close>

text \<open>The loop of \<open>getNestedValue\<close> over the path segments.\<close>

fun getNestedValue_loop :: "jsval \<Rightarrow> string list \<Rightarrow> jsval" where
  "getNestedValue_loop current [] = current"
| "getNestedValue_loop current (part # parts) =
     (if current = JNull \<or> current = JUndefined then JUndefined
      else if all_digits part then
        (let index = show_nat (parseInt part) in
         if isArray current \<and> js_get current index \<noteq> JUndefined
         then getNestedValue_loop (js_get current index) parts
         else JUndefined)
      else getNestedValue_loop (js_get current part) parts)"

definition getNestedValue :: "jsval \<Rightarrow> string \<Rightarrow> jsval" where
  "getNestedValue obj path =
     (if path = [] \<or> \<not> truthy obj then JUndefined
      else getNestedValue_loop obj (split_on CHR ''.'' path))"

text \<open>
  The loop of \<open>setNestedValue\<close>. The source walks down by reference and mutates in place;
  here each step returns the updated container, and the updated child is stored back under
  the key it was read from (which leaves the key where it stands).
\<close>

fun setNestedValue_loop :: "jsval \<Rightarrow> string list \<Rightarrow> string \<Rightarrow> jsval \<Rightarrow> error + jsval" where
  "setNestedValue_loop current [] lastPart x = js_set current lastPart x"
| "setNestedValue_loop current (part # parts) lastPart x =
     (if all_digits part then
        (let index = show_nat (parseInt part) in
         case (if \<not> isArray current then js_set current part (JObject Array []) else Inr current) of
           Inl e \<Rightarrow> Inl e
         | Inr c1 \<Rightarrow>
            (case (if \<not> truthy (js_get c1 index) then js_set c1 index (JObject Plain [])
                   else Inr c1) of
               Inl e \<Rightarrow> Inl e
             | Inr c2 \<Rightarrow>
                (case setNestedValue_loop (js_get c2 index) parts lastPart x of
                   Inl e \<Rightarrow> Inl e
                 | Inr child \<Rightarrow> js_set c2 index child)))
      else
        (case (if \<not> truthy (js_get current part) \<or> typeof (js_get current part) \<noteq> ''object''
               then js_set current part (JObject Plain []) else Inr current) of
           Inl e \<Rightarrow> Inl e
         | Inr c1 \<Rightarrow>
            (case setNestedValue_loop (js_get c1 part) parts lastPart x of
               Inl e \<Rightarrow> Inl e
             | Inr child \<Rightarrow> js_set c1 part child)))"

definition setNestedValue :: "jsval \<Rightarrow> string \<Rightarrow> jsval \<Rightarrow> error + jsval" where
  "setNestedValue obj path x =
     (if path = [] \<or> \<not> truthy obj then Inr obj
      else (let parts = split_on CHR ''.'' path
            in setNestedValue_loop obj (butlast parts) (last parts) x))"


section \<open>FieldMapper: string coercion and value mapping\<close>

text \<open>An array index is the canonical numeral of a number below \<open>2^32 - 1\<close>; the length of
  an array is one more than its largest index.\<close>

definition is_array_index :: "string \<Rightarrow> bool" where
  "is_array_index k = (all_digits k \<and> show_nat (parseInt k) = k \<and> parseInt k < 4294967295)"

definition array_length :: "(string \<times> 'a) list \<Rightarrow> nat" where
  "array_length ps = fold (\<lambda>p n. if is_array_index (fst p) then max n (parseInt (fst p) + 1) else n) ps 0"

fun join_comma :: "string list \<Rightarrow> string" where
  "join_comma [] = []"
| "join_comma [s] = s"
| "join_comma (s # t # ts) = s @ '','' @ join_comma (t # ts)"

text \<open>\<open>String(v)\<close>, which is also how a value becomes a property key in \<open>mapping[v]\<close>. An
  array prints its elements joined by commas, \<open>null\<close>, \<open>undefined\<close> and holes as nothing.\<close>

fun js_String :: "host \<Rightarrow> jsval \<Rightarrow> string"
  and elems_String :: "host \<Rightarrow> (string \<times> jsval) list \<Rightarrow> (string \<times> string) list" where
  "js_String h JUndefined = ''undefined''"
| "js_String h JNull = ''null''"
| "js_String h (JBool b) = (if b then ''true'' else ''false'')"
| "js_String h (JNum n) = show_int n"
| "js_String h (JStr s) = s"
| "js_String h (JObject Plain ps) = ''[object Object]''"
| "js_String h (JObject (DateObj d) ps) = date_toString h d"
| "js_String h (JObject Array ps) =
     join_comma (map (\<lambda>i. case map_of (elems_String h ps) (show_nat i) of None \<Rightarrow> [] | Some s \<Rightarrow> s)
                     [0 ..< array_length ps])"
| "elems_String h [] = []"
| "elems_String h (p # ps) =
     (fst p, if snd p = JUndefined \<or> snd p = JNull then [] else js_String h (snd p)) # elems_String h ps"

text \<open>\<open>Object.entries\<close>: array-index keys in ascending order, then the other keys in
  insertion order.\<close>

definition js_entries :: "(string \<times> 'a) list \<Rightarrow> (string \<times> 'a) list" where
  "js_entries ps =
     sort_key (\<lambda>p. parseInt (fst p)) (filter (\<lambda>p. is_array_index (fst p)) ps)
     @ filter (\<lambda>p. \<not> is_array_index (fst p)) ps"




section \<open>FieldMapper: dates\<close>

definition leap_year :: "int \<Rightarrow> bool" where
  "leap_year y = ((y mod 4 = 0 \<and> y mod 100 \<noteq> 0) \<or> y mod 400 = 0)"

text \<open>Days of the month with index \<open>m\<close> (0 is January).\<close>

definition days_in_month :: "int \<Rightarrow> nat \<Rightarrow> nat" where
  "days_in_month y m =
     (if m = 1 then (if leap_year y then 29 else 28)
      else if m = 3 \<or> m = 5 \<or> m = 8 \<or> m = 10 then 30 else 31)"

text \<open>
  \<open>new Date(year, monthIndex, day)\<close> read back through \<open>getFullYear\<close>, \<open>getMonth\<close> and
  \<open>getDate\<close>: a year from 0 to 99 means 1900 plus that year, a month index outside 0..11
  carries into the year, and a day beyond the end of the month carries into the following
  months (day 0 is the last day of the month before).
\<close>

function roll_days :: "int \<Rightarrow> nat \<Rightarrow> nat \<Rightarrow> jsdate" where
  "roll_days y m d =
     (if d > days_in_month y m then
        (if m \<ge> 11 then roll_days (y + 1) 0 (d - days_in_month y m)
         else roll_days y (m + 1) (d - days_in_month y m))
      else LocalDate y m d)"
  by pat_completeness auto
termination
  by (relation "measure (\<lambda>(y, m, d). d)") (auto simp: days_in_month_def)

declare roll_days.simps [simp del]

definition new_Date :: "nat \<Rightarrow> int \<Rightarrow> nat \<Rightarrow> jsdate" where
  "new_Date year monthIndex day =
     (let yr = (if year \<le> 99 then 1900 + int year else int year);
          ym = yr + monthIndex div 12;
          mn = nat (monthIndex mod 12)
      in if day = 0 then
           (if mn = 0 then LocalDate (ym - 1) 11 31
            else LocalDate ym (mn - 1) (days_in_month ym (mn - 1)))
         else roll_days ym mn day)"

definition padStart :: "nat \<Rightarrow> char \<Rightarrow> string \<Rightarrow> string" where
  "padStart n c s = replicate (n - length s) c @ s"

text \<open>The regular expressions \<open>/^\d{4}-\d{2}-\d{2}$/\<close> and \<open>/^\d{2}\/\d{2}\/\d{4}$/\<close>.\<close>

definition iso_re :: "string \<Rightarrow> bool" where
  "iso_re s = (length s = 10 \<and> list_all is_digit (take 4 s) \<and> s ! 4 = CHR ''-''
     \<and> list_all is_digit (take 2 (drop 5 s)) \<and> s ! 7 = CHR ''-'' \<and> list_all is_digit (drop 8 s))"

definition mdy_re :: "string \<Rightarrow> bool" where
  "mdy_re s = (length s = 10 \<and> list_all is_digit (take 2 s) \<and> s ! 2 = CHR ''/''
     \<and> list_all is_digit (take 2 (drop 3 s)) \<and> s ! 5 = CHR ''/'' \<and> list_all is_digit (drop 6 s))"

text \<open>The tail of \<open>formatDate\<close>, from the check of \<open>getTime()\<close> on.\<close>

definition format_mdy :: "jsdate \<Rightarrow> string" where
  "format_mdy dateObj =
     (case dateObj of
        InvalidDate \<Rightarrow> []
      | LocalDate y m d \<Rightarrow>
          padStart 2 CHR ''0'' (show_nat (m + 1)) @ ''/'' @ padStart 2 CHR ''0'' (show_nat d)
          @ ''/'' @ show_int y)"

definition formatDate :: "host \<Rightarrow> jsval \<Rightarrow> string" where
  "formatDate h date =
     (if \<not> truthy date then []
      else case date of
          JObject (DateObj d) ps \<Rightarrow> format_mdy d
        | JStr s \<Rightarrow>
            if iso_re s then
              (case split_on CHR ''-'' s of
                 year # month # day # rest \<Rightarrow>
                   format_mdy (new_Date (parseInt year) (int (parseInt month) - 1) (parseInt day))
               | _ \<Rightarrow> format_mdy InvalidDate)
            else if mdy_re s then s
            else format_mdy (date_parse h s)
        | _ \<Rightarrow> [])"



section \<open>FieldMapper: formatting and parsing by field type\<close>




section \<open>FieldMapper: the schema and the two mapping directions\<close>

text \<open>
  A field descriptor of the schema. A member the JSON leaves out is \<open>None\<close> (for
  \<open>value_mapping\<close>: \<open>JUndefined\<close>); \<open>ftype\<close> is the member \<open>type\<close>. A part of the
  schema is its \<open>fields\<close> array, which may be missing; the configuration is its \<open>parts\<close>
  array, \<open>None\<close> when there is no configuration or it has no parts.
\<close>

record descriptor =
  field_id :: "string option"
  data_path :: "string option"
  pdf_field_name :: "string option"
  item_number :: "string option"
  ftype :: "string option"
  value_mapping :: jsval

type_synonym part = "descriptor list option"


text \<open>An entry of the form data; \<open>fvalue\<close> is the member \<open>value\<close> and \<open>field\<close> the
  descriptor the entry was made from. The form data is an object keyed by field id.\<close>

record resolved_field =
  fvalue :: jsval
  pdfFieldName :: string
  field :: descriptor
  originalValue :: jsval

type_synonym form_data = "(string \<times> resolved_field) list"













section \<open>ApplicantProfile\<close>

text \<open>The section \<open>eligibilityInfo\<close> as the constructor builds it, with its members as
  parameters: whatever later assignments to these members put there, the section keeps this
  shape.\<close>

definition workAuthorization_of :: "jsval \<Rightarrow> jsval \<Rightarrow> jsval \<Rightarrow> jsval \<Rightarrow> jsval" where
  "workAuthorization_of never denied revoked factors =
     JObject Plain
       [(''neverBeenGrantedEAD'', never),
        (''previouslyDeniedEAD'', denied),
        (''previouslyRevokedEAD'', revoked),
        (''invalidatingFactors'', factors)]"

definition eligibilityInfo_of ::
  "jsval \<Rightarrow> jsval \<Rightarrow> jsval \<Rightarrow> jsval \<Rightarrow> jsval \<Rightarrow> jsval \<Rightarrow> jsval \<Rightarrow> jsval \<Rightarrow> jsval" where
  "eligibilityInfo_of category categoryDescription basis workAuthorization criminalBackground
      applicationPurpose requestedCategory isEligible =
     JObject Plain
       [(''category'', category),
        (''categoryDescription'', categoryDescription),
        (''basisForEligibility'', basis),
        (''workAuthorization'', workAuthorization),
        (''criminalBackground'', criminalBackground),
        (''applicationPurpose'', applicationPurpose),
        (''requestedCategory'', requestedCategory),
        (''isEligible'', isEligible)]"

definition address_new :: jsval where
  "address_new =
     JObject Plain
       [(''street'', JStr []), (''city'', JStr []), (''state'', JStr []),
        (''zipCode'', JStr []), (''country'', JStr [])]"

text \<open>The constructor. The two time stamps and the generated application id come from the
  clock and the random source: they are parameters.\<close>

definition ApplicantProfile_new :: "string \<Rightarrow> string \<Rightarrow> string \<Rightarrow> jsval" where
  "ApplicantProfile_new createdAt updatedAt applicationId =
     JObject Plain
       [(''personalInfo'', JObject Plain
           [(''firstName'', JStr []), (''middleName'', JStr []), (''lastName'', JStr []),
            (''dateOfBirth'', JStr []), (''gender'', JStr []), (''citizenship'', JStr []),
            (''passport'', JObject Plain
               [(''number'', JStr []), (''issuanceCountry'', JStr []),
                (''expirationDate'', JStr [])]),
            (''contact'', JObject Plain
               [(''email'', JStr []), (''phoneNumber'', JStr []),
                (''address'', address_new), (''mailingAddress'', address_new)])]),
        (''immigrationDetails'', JObject Plain
           [(''uscisNumber'', JStr []), (''i94Number'', JStr []), (''currentStatus'', JStr []),
            (''statusValidFrom'', JStr []), (''statusValidTo'', JStr []),
            (''entryDate'', JStr []), (''portOfEntry'', JStr []), (''visaType'', JStr []),
            (''i797NoticeNumber'', JStr []),
            (''priorEAD'', JObject Plain
               [(''hasObtainedBefore'', JBool False), (''previousEADNumber'', JStr []),
                (''previousExpirationDate'', JStr [])]),
            (''greenCard'', JObject Plain
               [(''hasGreenCard'', JBool False), (''cardNumber'', JStr []),
                (''expirationDate'', JStr [])]),
            (''advancedParole'', JObject Plain
               [(''hasAdvancedParole'', JBool False), (''documentNumber'', JStr []),
                (''expirationDate'', JStr [])]),
            (''refugeeAsyleeStatus'', JObject Plain
               [(''isRefugeeAoffer'', JBool False), (''dateOfGrant'', JStr []),
                (''isAsyleeGranted'', JBool False), (''dateAsylumGranted'', JStr [])])]),
        (''eligibilityInfo'',
           eligibilityInfo_of (JStr []) (JStr [])
             (JObject Plain
               [(''deferredActionForChildroodsArrivals'', JBool False),
                (''asylumAdjudication'', JBool False), (''refugeeStatus'', JBool False),
                (''specialImmigrantStatus'', JBool False), (''family'', JBool False),
                (''employment'', JBool False), (''other'', JBool False),
                (''otherDescription'', JStr [])])
             (workAuthorization_of (JBool False) (JBool False) (JBool False) (JObject Array []))
             (JObject Plain [(''hasConverterion'', JBool False), (''convictionDetails'', JStr [])])
             (JStr []) (JStr []) JNull),
        (''metadata'', JObject Plain
           [(''formVersion'', JStr ''765 (I-765 Employment Authorization Document)''),
            (''formVersionDate'', JStr ''2025-12-09''),
            (''createdAt'', JStr createdAt), (''updatedAt'', JStr updatedAt),
            (''lastModifiedBy'', JStr ''Miahelloworld''), (''status'', JStr ''DRAFT''),
            (''submissionDate'', JNull), (''caseNumber'', JStr []),
            (''applicationId'', JStr applicationId),
            (''notes'', JObject Array []), (''attachments'', JObject Array []),
            (''completionPercentage'', JNum 0)]),
        (''supportingDocuments'', JObject Plain
           [(''passportCopy'', JNull), (''birthCertificate'', JNull),
            (''identificationDocuments'', JObject Array []),
            (''immigrationDocuments'', JObject Array []),
            (''previousEADDocuments'', JObject Array []),
            (''employmentDocuments'', JObject Array []),
            (''educationDocuments'', JObject Array []),
            (''asylumDocuments'', JObject Array []),
            (''otherDocuments'', JObject Array [])]),
        (''employmentInfo'', JObject Plain
           [(''jobTitle'', JStr []), (''employerName'', JStr []), (''employerEIN'', JStr []),
            (''employerAddress'', address_new),
            (''startDate'', JStr []), (''expectedEndDate'', JStr []),
            (''positionType'', JStr []),
            (''salaryRange'', JObject Plain
               [(''minimum'', JNum 0), (''maximum'', JNum 0), (''currency'', JStr ''USD'')])]),
        (''paymentInfo'', JObject Plain
           [(''filingFee'', JNum 0), (''biometricFee'', JNum 0), (''totalFee'', JNum 0),
            (''paymentMethod'', JStr []), (''paymentDate'', JNull),
            (''receiptNumber'', JStr []), (''isPaid'', JBool False)])]"

record validation_result =
  isValid :: bool
  errors :: "string list"

text \<open>\<open>validateEligibility\<close> reads members of \<open>this.eligibilityInfo\<close>; reading a member of
  \<open>null\<close> or \<open>undefined\<close> raises.\<close>

definition validateEligibility :: "jsval \<Rightarrow> error + validation_result" where
  "validateEligibility this =
     (let eligibility = js_get this ''eligibilityInfo'' in
      if eligibility = JNull \<or> eligibility = JUndefined then Inl TypeError
      else
        (let errors1 = (if \<not> truthy (js_get eligibility ''category'')
                        then [''EAD category is required''] else []);
             errors2 = errors1 @ (if \<not> truthy (js_get eligibility ''applicationPurpose'')
                        then [''Application purpose is required''] else []);
             errors3 = errors2 @
                (if truthy (js_get eligibility ''previouslyDeniedEAD'') \<or>
                    truthy (js_get eligibility ''previouslyRevokedEAD'')
                 then [''Applicants with previous denials or revocations may have eligibility issues'']
                 else [])
         in Inr \<lparr> isValid = (length errors3 = 0), errors = errors3 \<rparr>))"


section \<open>The PDF library\<close>

text \<open>
  The processor uses the library \<open>pdf-lib\<close> through a handful of calls. Modelled from the
  library's interface: a document is the list of its form fields (and what flattening has
  burnt into the pages); a field has a fully qualified name and is a text field (with its
  text and optional maximum length), a check box, or of another kind. \<open>getTextField\<close> and
  \<open>getCheckBox\<close> raise when no field has the name or the field is of another kind;
  \<open>setText\<close> raises when the text is longer than the field allows. Saving gives bytes that
  load back to the same document; the encoding itself is not modelled.
\<close>

datatype field_kind = TextField "string option" "nat option" | CheckBox bool | OtherField

record pdf_field =
  field_name :: string
  field_kind :: field_kind

record pdfdoc =
  form_fields :: "pdf_field list"
  burnt :: "pdf_field list"

datatype pdfbytes = Serialized pdfdoc | Unreadable

definition save :: "pdfdoc \<Rightarrow> pdfbytes" where
  "save d = Serialized d"

fun load :: "pdfbytes \<Rightarrow> error + pdfdoc" where
  "load (Serialized d) = Inr d"
| "load Unreadable = Inl (PDFLibError ''Failed to parse PDF document'')"

definition getFieldMaybe :: "pdfdoc \<Rightarrow> string \<Rightarrow> pdf_field option" where
  "getFieldMaybe d n = find (\<lambda>f. field_name f = n) (form_fields d)"

definition getTextField :: "pdfdoc \<Rightarrow> string \<Rightarrow> error + pdf_field" where
  "getTextField d n =
     (case getFieldMaybe d n of
        None \<Rightarrow> Inl (PDFLibError ''NoSuchFieldError'')
      | Some f \<Rightarrow>
         (case field_kind f of
            TextField t m \<Rightarrow> Inr f
          | _ \<Rightarrow> Inl (PDFLibError ''UnexpectedFieldTypeError'')))"

definition getCheckBox :: "pdfdoc \<Rightarrow> string \<Rightarrow> error + pdf_field" where
  "getCheckBox d n =
     (case getFieldMaybe d n of
        None \<Rightarrow> Inl (PDFLibError ''NoSuchFieldError'')
      | Some f \<Rightarrow>
         (case field_kind f of
            CheckBox b \<Rightarrow> Inr f
          | _ \<Rightarrow> Inl (PDFLibError ''UnexpectedFieldTypeError'')))"

text \<open>Writing to the field a handle stands for: the first field of that name.\<close>

fun put_kind :: "string \<Rightarrow> field_kind \<Rightarrow> pdf_field list \<Rightarrow> pdf_field list" where
  "put_kind n k [] = []"
| "put_kind n k (f # fs) =
     (if field_name f = n then f\<lparr>field_kind := k\<rparr> # fs else f # put_kind n k fs)"

definition setText :: "pdfdoc \<Rightarrow> pdf_field \<Rightarrow> string \<Rightarrow> error + pdfdoc" where
  "setText d f t =
     (case field_kind f of
        TextField old m \<Rightarrow>
          (case m of
             None \<Rightarrow> Inr (d\<lparr>form_fields := put_kind (field_name f) (TextField (Some t) m) (form_fields d)\<rparr>)
           | Some n \<Rightarrow>
               if length t > n then Inl (PDFLibError ''ExceededMaxLengthError'')
               else Inr (d\<lparr>form_fields := put_kind (field_name f) (TextField (Some t) m) (form_fields d)\<rparr>))
      | _ \<Rightarrow> Inl (PDFLibError ''UnexpectedFieldTypeError''))"

definition check :: "pdfdoc \<Rightarrow> pdf_field \<Rightarrow> pdfdoc" where
  "check d f = d\<lparr>form_fields := put_kind (field_name f) (CheckBox True) (form_fields d)\<rparr>"

definition uncheck :: "pdfdoc \<Rightarrow> pdf_field \<Rightarrow> pdfdoc" where
  "uncheck d f = d\<lparr>form_fields := put_kind (field_name f) (CheckBox False) (form_fields d)\<rparr>"

definition flatten_form :: "pdfdoc \<Rightarrow> pdfdoc" where
  "flatten_form d = d\<lparr>form_fields := [], burnt := burnt d @ form_fields d\<rparr>"

section \<open>PDFProcessor: strings and the alias table\<close>

definition toLowerCase_char :: "char \<Rightarrow> char" where
  "toLowerCase_char c =
     (if 65 \<le> (of_char c :: nat) \<and> (of_char c :: nat) \<le> 90 then char_of ((of_char c :: nat) + 32) else c)"

definition toUpperCase_char :: "char \<Rightarrow> char" where
  "toUpperCase_char c =
     (if 97 \<le> (of_char c :: nat) \<and> (of_char c :: nat) \<le> 122 then char_of ((of_char c :: nat) - 32) else c)"

definition toLowerCase :: "string \<Rightarrow> string" where
  "toLowerCase s = map toLowerCase_char s"

definition toUpperCase :: "string \<Rightarrow> string" where
  "toUpperCase s = map toUpperCase_char s"

text \<open>\<open>s.includes(t)\<close>.\<close>

fun str_includes :: "string \<Rightarrow> string \<Rightarrow> bool" where
  "str_includes [] t = (t = [])"
| "str_includes (c # cs) t = (take (length t) (c # cs) = t \<or> str_includes cs t)"

definition is_alnum :: "char \<Rightarrow> bool" where
  "is_alnum c =
     (let n = (of_char c :: nat) in (48 \<le> n \<and> n \<le> 57) \<or> (65 \<le> n \<and> n \<le> 90) \<or> (97 \<le> n \<and> n \<le> 122))"

text \<open>\<open>s.replace(/[^a-zA-Z0-9]/g, '')\<close>.\<close>

definition strip_non_alnum :: "string \<Rightarrow> string" where
  "strip_non_alnum s = filter is_alnum s"

text \<open>The object literal \<open>fieldPatterns\<close> as it is written, with the keys \<open>1.a.\<close>, \<open>1.b.\<close> and
  \<open>1.c.\<close> given twice; the object it denotes keeps a key where it first stood, with the
  value given last.\<close>

definition fieldPatterns_literal :: "(string \<times> string list) list" where
  "fieldPatterns_literal =
     [(''1.a.'', [''1a'', ''1_a'', ''reason_initial'', ''initial'', ''Part1_1a'']),
      (''1.b.'', [''1b'', ''1_b'', ''reason_replacement'', ''replacement'', ''Part1_1b'']),
      (''1.c.'', [''1c'', ''1_c'', ''reason_renewal'', ''renewal'', ''Part1_1c'']),
      (''1.a.'', [''1a'', ''1_a'', ''last_name'', ''family_name'', ''surname'', ''Part2_1a'']),
      (''1.b.'', [''1b'', ''1_b'', ''first_name'', ''given_name'', ''Part2_1b'']),
      (''1.c.'', [''1c'', ''1_c'', ''middle_name'', ''Part2_1c'']),
      (''5.a.'', [''5a'', ''5_a'', ''mailing_in_care_of'', ''in_care_of'']),
      (''5.b.'', [''5b'', ''5_b'', ''mailing_street'', ''street_address'']),
      (''5.c.'', [''5c'', ''5_c'', ''mailing_apt'', ''apt'', ''suite'', ''floor'']),
      (''5.d.'', [''5d'', ''5_d'', ''mailing_city'', ''city'']),
      (''5.e.'', [''5e'', ''5_e'', ''mailing_state'', ''state'']),
      (''5.f.'', [''5f'', ''5_f'', ''mailing_zip'', ''zip_code'', ''zipcode'']),
      (''8.'', [''8'', ''alien_number'', ''a_number'', ''a_number_8'']),
      (''9.'', [''9'', ''uscis_account_number'', ''account_number'']),
      (''10.'', [''10'', ''sex'', ''gender'']),
      (''11.'', [''11'', ''marital_status'']),
      (''12.'', [''12'', ''previously_filed_i765'']),
      (''13.a.'', [''13a'', ''13_a'', ''ssa_issued_card'']),
      (''13.b.'', [''13b'', ''13_b'', ''ssn_number'', ''ssn'']),
      (''14.'', [''14'', ''want_ssa_card'']),
      (''15.'', [''15'', ''consent_for_disclosure'']),
      (''20.'', [''20'', ''date_of_birth'', ''dob'', ''birth_date'']),
      (''21.a.'', [''21a'', ''21_a'', ''i94_number'', ''i94'']),
      (''27.'', [''27'', ''eligibility_category'', ''category''])]"

definition fieldPatterns :: "(string \<times> string list) list" where
  "fieldPatterns = fold (\<lambda>p obj. AList.update (fst p) (snd p) obj) fieldPatterns_literal []"

definition pattern_matches :: "string \<Rightarrow> string \<Rightarrow> bool" where
  "pattern_matches fieldName pattern =
     (str_includes fieldName (toLowerCase pattern) \<or>
      fieldName = toLowerCase pattern \<or>
      strip_non_alnum fieldName = toLowerCase (strip_non_alnum pattern))"

text \<open>The three nested loops of \<open>buildFieldNameMapping\<close>: item numbers, fields of the
  document, patterns of the item number.\<close>

definition buildFieldNameMapping :: "pdf_field list \<Rightarrow> (string \<rightharpoonup> string)" where
  "buildFieldNameMapping allFields =
     fold (\<lambda>entry mapping.
        fold (\<lambda>f mapping.
           fold (\<lambda>pattern mapping.
              if pattern_matches (toLowerCase (field_name f)) pattern \<and> mapping (fst entry) = None
              then mapping(fst entry \<mapsto> field_name f) else mapping)
             (snd entry) mapping)
          allFields mapping)
       (js_entries fieldPatterns) Map.empty"


section \<open>PDFProcessor: filling the form\<close>

record filled_field =
  filled_fieldId :: string
  filled_pdfFieldName :: string
  filled_type :: string
  filled_value :: jsval
  filled_matched :: bool

record failed_field =
  failed_fieldId :: string
  failed_pdfFieldName :: string
  failed_value :: jsval

record fill_state =
  doc :: pdfdoc
  filledFields :: "filled_field list"
  failedFields :: "failed_field list"

text \<open>The test that decides between \<open>check()\<close> and \<open>uncheck()\<close> where a name variation
  resolves, and the one used after a fuzzy match.\<close>

definition check_test_variation :: "jsval \<Rightarrow> bool" where
  "check_test_variation v =
     (v = JBool True \<or> v = JStr ''X'' \<or> v = JStr ''checked'' \<or> v = JStr ''Yes'' \<or>
      v = JStr ''initial'' \<or> v = JStr ''replacement'' \<or> v = JStr ''renewal'')"

definition check_test_fuzzy :: "jsval \<Rightarrow> bool" where
  "check_test_fuzzy v =
     (v = JBool True \<or> v = JStr ''X'' \<or> v = JStr ''checked'' \<or> v = JStr ''Yes'')"

text \<open>
  The nested \<open>try\<close> blocks that both places share: the text field of that name is written;
  when getting it or writing it raises, the check box of that name is checked or unchecked;
  when that raises too, nothing is filled. The result is the document and the kind filled.
\<close>

definition try_checkbox ::
  "pdfdoc \<Rightarrow> string \<Rightarrow> bool \<Rightarrow> (pdfdoc \<times> string) option" where
  "try_checkbox d fieldName test =
     (case getCheckBox d fieldName of
        Inl checkboxError \<Rightarrow> None
      | Inr checkbox \<Rightarrow> Some (if test then check d checkbox else uncheck d checkbox, ''checkbox''))"

definition try_fill ::
  "host \<Rightarrow> pdfdoc \<Rightarrow> string \<Rightarrow> jsval \<Rightarrow> bool \<Rightarrow> (pdfdoc \<times> string) option" where
  "try_fill h d fieldName v test =
     (case getTextField d fieldName of
        Inl textError \<Rightarrow> try_checkbox d fieldName test
      | Inr fld \<Rightarrow>
         (case setText d fld (js_String h (if truthy v then v else JStr [])) of
            Inl textError \<Rightarrow> try_checkbox d fieldName test
          | Inr d' \<Rightarrow> Some (d', ''text'')))"

text \<open>The loop over the name variations, left at the first one that fills.\<close>

fun fill_variations ::
  "host \<Rightarrow> pdfdoc \<Rightarrow> string list \<Rightarrow> jsval \<Rightarrow> (pdfdoc \<times> string \<times> string) option" where
  "fill_variations h d [] v = None"
| "fill_variations h d (fieldName # rest) v =
     (case try_fill h d fieldName v (check_test_variation v) of
        Some (d', kind) \<Rightarrow> Some (d', fieldName, kind)
      | None \<Rightarrow> fill_variations h d rest v)"

definition fieldNameVariations :: "string \<Rightarrow> string \<Rightarrow> string list" where
  "fieldNameVariations actualFieldName pdfName =
     [actualFieldName,
      pdfName,
      map (\<lambda>c. if c = CHR ''.'' then CHR ''_'' else c) pdfName,
      filter (\<lambda>c. c \<noteq> CHR ''.'') pdfName,
      toLowerCase pdfName,
      toUpperCase pdfName]"

definition fuzzy_match :: "string \<Rightarrow> string \<Rightarrow> bool" where
  "fuzzy_match pdfName n =
     (let nameLower = toLowerCase n; pdfLower = toLowerCase pdfName
      in str_includes nameLower pdfLower \<or> str_includes pdfLower nameLower \<or>
         strip_non_alnum nameLower = strip_non_alnum pdfLower)"

text \<open>The fuzzy match that is tried when no variation has filled a field: the first field
  name of the document that matches, if it is not empty, is filled.\<close>

definition fill_fuzzy ::
  "host \<Rightarrow> pdfdoc \<Rightarrow> string list \<Rightarrow> string \<Rightarrow> jsval \<Rightarrow> (pdfdoc \<times> string \<times> string) option" where
  "fill_fuzzy h d allFieldNames pdfName v =
     (case find (fuzzy_match pdfName) allFieldNames of
        None \<Rightarrow> None
      | Some similarField \<Rightarrow>
          if similarField = [] then None
          else (case try_fill h d similarField v (check_test_fuzzy v) of
                  None \<Rightarrow> None
                | Some (d', kind) \<Rightarrow> Some (d', similarField, kind)))"

text \<open>\<open>fieldMapping.get(pdfFieldName) || pdfFieldName\<close>.\<close>

definition actual_name :: "(string \<rightharpoonup> string) \<Rightarrow> string \<Rightarrow> string" where
  "actual_name fieldMapping pdfName =
     (case fieldMapping pdfName of
        None \<Rightarrow> pdfName
      | Some n \<Rightarrow> if n \<noteq> [] then n else pdfName)"

text \<open>The body of the loop of \<open>fillForm\<close> over the entries of the form data.\<close>

definition fillForm_entry ::
  "host \<Rightarrow> (string \<rightharpoonup> string) \<Rightarrow> string list \<Rightarrow> fill_state \<Rightarrow> string \<times> resolved_field
     \<Rightarrow> fill_state" where
  "fillForm_entry h fieldMapping allFieldNames st entry =
     (let fieldId = fst entry; fieldData = snd entry in
      if pdfFieldName fieldData = [] then st
      else
        (let pdfName = pdfFieldName fieldData;
             v = fvalue fieldData;
             actualFieldName = actual_name fieldMapping pdfName
         in case fill_variations h (doc st) (fieldNameVariations actualFieldName pdfName) v of
              Some (d', fieldName, kind) \<Rightarrow>
                st\<lparr>doc := d',
                   filledFields := filledFields st @
                     [\<lparr>filled_fieldId = fieldId, filled_pdfFieldName = fieldName,
                       filled_type = kind, filled_value = v, filled_matched = False\<rparr>]\<rparr>
            | None \<Rightarrow>
               (case fill_fuzzy h (doc st) allFieldNames pdfName v of
                  Some (d', similarField, kind) \<Rightarrow>
                    st\<lparr>doc := d',
                       filledFields := filledFields st @
                         [\<lparr>filled_fieldId = fieldId, filled_pdfFieldName = similarField,
                           filled_type = kind, filled_value = v, filled_matched = True\<rparr>]\<rparr>
                | None \<Rightarrow>
                    st\<lparr>failedFields := failedFields st @
                         [\<lparr>failed_fieldId = fieldId, failed_pdfFieldName = pdfName,
                           failed_value = v\<rparr>]\<rparr>)))"

definition fillForm_entries ::
  "host \<Rightarrow> (string \<rightharpoonup> string) \<Rightarrow> string list \<Rightarrow> fill_state \<Rightarrow> (string \<times> resolved_field) list
     \<Rightarrow> fill_state" where
  "fillForm_entries h fieldMapping allFieldNames st entries =
     fold (\<lambda>entry st. fillForm_entry h fieldMapping allFieldNames st entry) entries st"

text \<open>What \<open>fillForm\<close> does with the clone of the template: the alias table and the field
  names are taken from it before the loop.\<close>

definition fill_document :: "host \<Rightarrow> pdfdoc \<Rightarrow> form_data \<Rightarrow> fill_state" where
  "fill_document h pdfDoc formData =
     fillForm_entries h (buildFieldNameMapping (form_fields pdfDoc))
       (map field_name (form_fields pdfDoc))
       \<lparr>doc = pdfDoc, filledFields = [], failedFields = []\<rparr>
       (js_entries formData)"

section \<open>PDFProcessor: the processor and its documents\<close>

text \<open>
  Documents are objects that the processor and the library hold by reference: the store is
  the list of the documents made so far, a reference is a position in it. The processor
  keeps the library (there or not), the reference of the template and its flag.
\<close>

type_synonym ref = nat

record processor =
  pdfLib :: bool
  templatePDF :: "ref option"
  initialized :: bool

record world =
  this :: processor
  store :: "pdfdoc list"

definition deref :: "pdfdoc list \<Rightarrow> ref \<Rightarrow> pdfdoc option" where
  "deref s r = (if r < length s then Some (s ! r) else None)"

definition PDFProcessor_new :: processor where
  "PDFProcessor_new = \<lparr>pdfLib = False, templatePDF = None, initialized = False\<rparr>"

text \<open>Whether the library can be had (as a global or from the network) and what a fetch of
  a URL returns are given by the environment.\<close>

record env =
  pdflib_available :: bool
  fetch :: "string \<Rightarrow> error + pdfbytes"

definition initialize :: "env \<Rightarrow> world \<Rightarrow> bool \<times> world" where
  "initialize e w =
     (if initialized (this w) then (True, w)
      else if pdflib_available e
        then (True, w\<lparr>this := (this w)\<lparr>pdfLib := True, initialized := True\<rparr>\<rparr>)
        else (False, w))"

datatype template_source = FromUrl string | FromBuffer pdfbytes | OtherSource

definition loadTemplate :: "env \<Rightarrow> world \<Rightarrow> template_source \<Rightarrow> (error + unit) \<times> world" where
  "loadTemplate e w templateSource =
     (let w1 = (if \<not> initialized (this w) then snd (initialize e w) else w) in
      if \<not> pdfLib (this w1) then (Inl (Error ''PDF library not initialized''), w1)
      else
        (case (case templateSource of
                 FromUrl url \<Rightarrow> fetch e url
               | FromBuffer b \<Rightarrow> Inr b
               | OtherSource \<Rightarrow> Inl (Error ''Invalid template source'')) of
           Inl err \<Rightarrow> (Inl err, w1)
         | Inr arrayBuffer \<Rightarrow>
            (case load arrayBuffer of
               Inl err \<Rightarrow> (Inl err, w1)
             | Inr d \<Rightarrow>
                (Inr (),
                 w1\<lparr>this := (this w1)\<lparr>templatePDF := Some (length (store w1))\<rparr>,
                    store := store w1 @ [d]\<rparr>))))"

record fill_options =
  flatten :: bool
  editable :: bool
  includeSignature :: bool

definition default_options :: fill_options where
  "default_options = \<lparr>flatten = False, editable = True, includeSignature = True\<rparr>"

text \<open>
  \<open>fillForm\<close>: the clone is a new document of the store, made by loading the bytes the
  template saves to; the form that is filled is the clone's. The branch for the signature
  is empty in the source.
\<close>

definition fillForm ::
  "host \<Rightarrow> world \<Rightarrow> form_data \<Rightarrow> fill_options \<Rightarrow> (error + pdfbytes) \<times> world" where
  "fillForm h w formData options =
     (case templatePDF (this w) of
        None \<Rightarrow> (Inl (Error ''PDF template not loaded''), w)
      | Some t \<Rightarrow>
         if \<not> pdfLib (this w) then (Inl TypeError, w)
         else
           (case deref (store w) t of
              None \<Rightarrow> (Inl TypeError, w)
            | Some template \<Rightarrow>
               (case load (save template) of
                  Inl err \<Rightarrow> (Inl err, w)
                | Inr clone \<Rightarrow>
                   (let pdfDoc = length (store w);
                        w1 = w\<lparr>store := store w @ [clone]\<rparr>;
                        st = fill_document h clone formData;
                        w2 = w1\<lparr>store := (store w1)[pdfDoc := doc st]\<rparr>;
                        w3 = (if flatten options
                              then w2\<lparr>store := (store w2)[pdfDoc := flatten_form (doc st)]\<rparr>
                              else w2)
                    in (case deref (store w3) pdfDoc of
                          None \<Rightarrow> (Inl TypeError, w3)
                        | Some d \<Rightarrow> (Inr (save d), w3))))))"

text \<open>\<open>getFormFieldNames\<close>: what raises after the check of the template is caught and gives
  the empty list.\<close>

definition getFormFieldNames :: "world \<Rightarrow> (error + string list) \<times> world" where
  "getFormFieldNames w =
     (case templatePDF (this w) of
        None \<Rightarrow> (Inl (Error ''PDF template not loaded''), w)
      | Some t \<Rightarrow>
         (case deref (store w) t of
            None \<Rightarrow> (Inr [], w)
          | Some template \<Rightarrow> (Inr (map field_name (form_fields template)), w)))"

text \<open>A run of fill operations, one after the other, on the same processor.\<close>

fun fillForm_many ::
  "host \<Rightarrow> world \<Rightarrow> (form_data \<times> fill_options) list \<Rightarrow> world" where
  "fillForm_many h w [] = w"
| "fillForm_many h w (c # cs) = fillForm_many h (snd (fillForm h w (fst c) (snd c))) cs"


section \<open>Notions used in the statements\<close>

text \<open>A host whose \<open>Date\<close> accepts no string outside the two formats the mapper handles
  itself; used where a statement is evaluated.\<close>

definition strict_host :: host where
  "strict_host = \<lparr> date_parse = (\<lambda>s. InvalidDate), date_toString = (\<lambda>d. ''Invalid Date'') \<rparr>"


text \<open>A string \<open>YYYY-MM-DD\<close> that names a day of the calendar, in a year of four digits.\<close>

definition valid_iso_date :: "string \<Rightarrow> bool" where
  "valid_iso_date s =
     (iso_re s \<and> 1000 \<le> parseInt (take 4 s) \<and>
      1 \<le> parseInt (take 2 (drop 5 s)) \<and> parseInt (take 2 (drop 5 s)) \<le> 12 \<and>
      1 \<le> parseInt (drop 8 s) \<and>
      parseInt (drop 8 s)
        \<le> days_in_month (int (parseInt (take 4 s))) (parseInt (take 2 (drop 5 s)) - 1))"





text \<open>A declared PDF name that nothing in the document answers to: no entry of the alias
  table, no field under one of the name variations, no field name that matches fuzzily.\<close>

definition no_candidate :: "pdfdoc \<Rightarrow> string \<Rightarrow> bool" where
  "no_candidate d pdfName =
     (buildFieldNameMapping (form_fields d) pdfName = None \<and>
      (\<forall>n \<in> set (fieldNameVariations pdfName pdfName). getFieldMaybe d n = None) \<and>
      (\<forall>n \<in> set (map field_name (form_fields d)). \<not> fuzzy_match pdfName n))"




text \<open>Descriptors, configurations and profiles on which statements are evaluated.\<close>

definition descriptor_of :: "string \<Rightarrow> string \<Rightarrow> string \<Rightarrow> jsval \<Rightarrow> descriptor" where
  "descriptor_of fid path type mapping =
     \<lparr> field_id = Some fid, data_path = Some path, pdf_field_name = None, item_number = None,
       ftype = Some type, value_mapping = mapping \<rparr>"

definition fresh_profile :: jsval where
  "fresh_profile =
     ApplicantProfile_new ''2025-12-09T00:00:00.000Z'' ''2025-12-09T00:00:00.001Z''
       ''APP-1765238400000-K3J9X2A''"



text \<open>A processor that has just been made, an environment in which the library can be had,
  and a template with one check box, checked, and one text field of at most five
  characters; an entry of the form data that carries the value \<open>initial\<close> for a PDF field
  name, and one that carries a family name.\<close>

definition new_world :: world where
  "new_world = \<lparr> this = PDFProcessor_new, store = [] \<rparr>"

definition browser_env :: env where
  "browser_env = \<lparr> pdflib_available = True, fetch = (\<lambda>url. Inl (Error ''Failed to fetch'')) \<rparr>"

definition reason_template :: pdfdoc where
  "reason_template =
     \<lparr> form_fields =
         [\<lparr> field_name = ''form1.Pt1_reason'', field_kind = CheckBox True \<rparr>,
          \<lparr> field_name = ''form1.Pt2_family'', field_kind = TextField None (Some 5) \<rparr>],
       burnt = [] \<rparr>"

definition reason_entry :: "string \<Rightarrow> resolved_field" where
  "reason_entry pdfName =
     \<lparr> fvalue = JStr ''initial'', pdfFieldName = pdfName,
       field = descriptor_of ''reason'' ''eligibilityInfo.applicationPurpose'' ''Radio'' JUndefined,
       originalValue = JStr ''initial'' \<rparr>"

definition family_entry :: "string \<Rightarrow> resolved_field" where
  "family_entry pdfName =
     \<lparr> fvalue = JStr ''Lee'', pdfFieldName = pdfName,
       field = descriptor_of ''family_name'' ''personalInfo.lastName'' ''Text Input'' JUndefined,
       originalValue = JStr ''Lee'' \<rparr>"

text \<open>The processor after it has loaded that template from a buffer, and a form data of three
  entries, the second of which names a PDF field the template has nothing for.\<close>

definition reason_world :: world where
  "reason_world = snd (loadTemplate browser_env new_world (FromBuffer (save reason_template)))"

definition three_entries :: form_data where
  "three_entries =
     [(''a'', family_entry ''form1.Pt2_family''),
      (''b'', reason_entry ''Part9_nothing''),
      (''c'', reason_entry ''form1.Pt1_reason'')]"

section \<open>Numerals and the two date formats\<close>


lemma is_digit_minus [simp]: "\<not> is_digit CHR ''-''" "\<not> is_digit CHR ''/''"
  by (simp_all add: is_digit_def)

lemma length_10_explicit:
  "length s = 10 \<Longrightarrow> \<exists>a b c d e f g i j k. s = [a, b, c, d, e, f, g, i, j, k]"
  by (auto simp: length_Suc_conv eval_nat_numeral)

lemma iso_re_explicit:
  "iso_re s = (\<exists>a b c d e f g i. s = [a, b, c, d, CHR ''-'', e, f, CHR ''-'', g, i]
      \<and> is_digit a \<and> is_digit b \<and> is_digit c \<and> is_digit d \<and> is_digit e \<and> is_digit f \<and> is_digit g \<and> is_digit i)"
proof
  assume "iso_re s"
  then have len: "length s = 10" by (simp add: iso_re_def)
  from length_10_explicit [OF len] obtain a b c d e f g i j k where s: "s = [a, b, c, d, e, f, g, i, j, k]" by blast
  with \<open>iso_re s\<close> show "\<exists>a b c d e f g i. s = [a, b, c, d, CHR ''-'', e, f, CHR ''-'', g, i]
      \<and> is_digit a \<and> is_digit b \<and> is_digit c \<and> is_digit d \<and> is_digit e \<and> is_digit f \<and> is_digit g \<and> is_digit i"
    by (simp add: iso_re_def eval_nat_numeral)
next
  assume "\<exists>a b c d e f g i. s = [a, b, c, d, CHR ''-'', e, f, CHR ''-'', g, i]
      \<and> is_digit a \<and> is_digit b \<and> is_digit c \<and> is_digit d \<and> is_digit e \<and> is_digit f \<and> is_digit g \<and> is_digit i"
  then show "iso_re s" by (auto simp: iso_re_def eval_nat_numeral)
qed

lemma mdy_re_explicit:
  "mdy_re s = (\<exists>a b c d e f g i. s = [a, b, CHR ''/'', c, d, CHR ''/'', e, f, g, i]
      \<and> is_digit a \<and> is_digit b \<and> is_digit c \<and> is_digit d \<and> is_digit e \<and> is_digit f \<and> is_digit g \<and> is_digit i)"
proof
  assume "mdy_re s"
  then have len: "length s = 10" by (simp add: mdy_re_def)
  from length_10_explicit [OF len] obtain a b c d e f g i j k where s: "s = [a, b, c, d, e, f, g, i, j, k]" by blast
  with \<open>mdy_re s\<close> show "\<exists>a b c d e f g i. s = [a, b, CHR ''/'', c, d, CHR ''/'', e, f, g, i]
      \<and> is_digit a \<and> is_digit b \<and> is_digit c \<and> is_digit d \<and> is_digit e \<and> is_digit f \<and> is_digit g \<and> is_digit i"
    by (simp add: mdy_re_def eval_nat_numeral)
next
  assume "\<exists>a b c d e f g i. s = [a, b, CHR ''/'', c, d, CHR ''/'', e, f, g, i]
      \<and> is_digit a \<and> is_digit b \<and> is_digit c \<and> is_digit d \<and> is_digit e \<and> is_digit f \<and> is_digit g \<and> is_digit i"
  then show "mdy_re s" by (auto simp: mdy_re_def eval_nat_numeral)
qed

lemma mdy_not_iso: "mdy_re s \<Longrightarrow> \<not> iso_re s"
  by (auto simp: mdy_re_explicit iso_re_explicit)

lemma formatDate_mdy: "mdy_re s \<Longrightarrow> formatDate h (JStr s) = s"
  using mdy_not_iso [of s] by (auto simp: formatDate_def mdy_re_def)

lemma digit_char_val: "is_digit c \<Longrightarrow> digit_char (digit_val c) = c"
  by (simp add: is_digit_def digit_char_def digit_val_def)

lemma digit_val_lt: "is_digit c \<Longrightarrow> digit_val c < 10"
  by (auto simp add: is_digit_def digit_val_def)

lemma digit_val_zero: "is_digit c \<Longrightarrow> digit_val c = 0 \<Longrightarrow> c = CHR ''0''"
proof -
  assume "is_digit c" "digit_val c = 0"
  then have "(of_char c :: nat) = of_char CHR ''0''"
    by (simp add: is_digit_def digit_val_def)
  then show ?thesis by (simp only: of_char_eq_iff)
qed

lemma show_nat_digit: "d < 10 \<Longrightarrow> show_nat d = [digit_char d]"
  by (subst show_nat.simps) simp

lemma show_nat_step:
  "0 < n \<Longrightarrow> d < 10 \<Longrightarrow> show_nat n = ds \<Longrightarrow> show_nat (10 * n + d) = ds @ [digit_char d]"
  by (subst show_nat.simps) simp

lemma show_nat_digits2:
  assumes "is_digit a" "is_digit b" "0 < digit_val a"
  shows "show_nat (10 * digit_val a + digit_val b) = [a, b]"
  using show_nat_step [OF assms(3) digit_val_lt [OF assms(2)] show_nat_digit [OF digit_val_lt [OF assms(1)]]]
  by (simp add: digit_char_val assms)

lemma pad2_parse:
  assumes "is_digit a" "is_digit b"
  shows "padStart 2 CHR ''0'' (show_nat (parseInt [a, b])) = [a, b]"
proof (cases "digit_val a = 0")
  case True
  then have "a = CHR ''0''" using assms(1) by (simp add: digit_val_zero)
  moreover have "parseInt [a, b] = digit_val b" using True by (simp add: parseInt_def)
  ultimately show ?thesis using assms(2)
    by (simp add: show_nat_digit digit_val_lt padStart_def digit_char_val)
next
  case False
  then have pos: "0 < digit_val a" by simp
  have "parseInt [a, b] = 10 * digit_val a + digit_val b" by (simp add: parseInt_def)
  then show ?thesis using show_nat_digits2 [OF assms pos] by (simp add: padStart_def)
qed

lemma show4_parse:
  assumes "is_digit a" "is_digit b" "is_digit c" "is_digit d" "1000 \<le> parseInt [a, b, c, d]"
  shows "show_nat (parseInt [a, b, c, d]) = [a, b, c, d]"
proof -
  have a0: "0 < digit_val a"
  proof (rule ccontr)
    assume "\<not> 0 < digit_val a"
    then have "digit_val a = 0" by simp
    then have "parseInt [a, b, c, d] < 1000"
      using digit_val_lt [OF assms(2)] digit_val_lt [OF assms(3)] digit_val_lt [OF assms(4)]
      by (simp add: parseInt_def)
    with assms(5) show False by simp
  qed
  have s2: "show_nat (10 * digit_val a + digit_val b) = [a, b]"
    by (rule show_nat_digits2 [OF assms(1) assms(2) a0])
  have p2: "0 < 10 * digit_val a + digit_val b" using a0 by simp
  have s3: "show_nat (10 * (10 * digit_val a + digit_val b) + digit_val c) = [a, b] @ [digit_char (digit_val c)]"
    by (rule show_nat_step [OF p2 digit_val_lt [OF assms(3)] s2])
  have p3: "0 < 10 * (10 * digit_val a + digit_val b) + digit_val c" using a0 by simp
  have s4: "show_nat (10 * (10 * (10 * digit_val a + digit_val b) + digit_val c) + digit_val d)
      = ([a, b] @ [digit_char (digit_val c)]) @ [digit_char (digit_val d)]"
    by (rule show_nat_step [OF p3 digit_val_lt [OF assms(4)] s3])
  have e: "parseInt [a, b, c, d] = 10 * (10 * (10 * digit_val a + digit_val b) + digit_val c) + digit_val d"
    by (simp add: parseInt_def)
  show ?thesis
    by (simp only: e s4) (simp add: digit_char_val assms)
qed


lemma is_digit_not_sep: "is_digit c \<Longrightarrow> c \<noteq> CHR ''-'' \<and> c \<noteq> CHR ''/'' \<and> c \<noteq> CHR ''.''"
  by (auto simp: is_digit_def)

lemma new_Date_valid:
  assumes "1000 \<le> y" "1 \<le> m" "m \<le> 12" "1 \<le> d" "d \<le> days_in_month (int y) (m - 1)"
  shows "new_Date y (int m - 1) d = LocalDate (int y) (m - 1) d"
proof -
  have mi: "(int m - 1) div 12 = 0" "nat ((int m - 1) mod 12) = m - 1"
    using assms(2,3) by auto
  have yr: "\<not> y \<le> 99" using assms(1) by simp
  have r: "roll_days (int y) (m - 1) d = LocalDate (int y) (m - 1) d"
    using assms(5) by (subst roll_days.simps) simp
  show ?thesis
    using assms(4) r mi yr by (simp add: new_Date_def Let_def)
qed

lemma formatDate_valid_iso:
  assumes "valid_iso_date s"
  shows "formatDate h (JStr s) = take 2 (drop 5 s) @ ''/'' @ drop 8 s @ ''/'' @ take 4 s"
proof -
  from assms have "iso_re s" by (simp add: valid_iso_date_def)
  then obtain a b c d e f g i where s: "s = [a, b, c, d, CHR ''-'', e, f, CHR ''-'', g, i]"
    and dg: "is_digit a" "is_digit b" "is_digit c" "is_digit d" "is_digit e" "is_digit f"
      "is_digit g" "is_digit i"
    by (auto simp: iso_re_explicit)
  have sp: "split_on CHR ''-'' s = [[a, b, c, d], [e, f], [g, i]]"
    using dg by (simp add: s is_digit_not_sep)
  from assms have v: "1000 \<le> parseInt [a, b, c, d]" "1 \<le> parseInt [e, f]" "parseInt [e, f] \<le> 12"
    "1 \<le> parseInt [g, i]"
    "parseInt [g, i] \<le> days_in_month (int (parseInt [a, b, c, d])) (parseInt [e, f] - 1)"
    by (simp_all add: valid_iso_date_def s)
  have nd: "new_Date (parseInt [a, b, c, d]) (int (parseInt [e, f]) - 1) (parseInt [g, i])
      = LocalDate (int (parseInt [a, b, c, d])) (parseInt [e, f] - 1) (parseInt [g, i])"
    by (rule new_Date_valid [OF v])
  have m1: "parseInt [e, f] - 1 + 1 = parseInt [e, f]" using v(2) by simp
  have fm: "format_mdy (LocalDate (int (parseInt [a, b, c, d])) (parseInt [e, f] - 1) (parseInt [g, i]))
      = [e, f] @ ''/'' @ [g, i] @ ''/'' @ [a, b, c, d]"
    using m1 pad2_parse [OF dg(5) dg(6)] pad2_parse [OF dg(7) dg(8)] show4_parse [OF dg(1-4) v(1)]
    by (simp add: format_mdy_def show_int_def)
  have "formatDate h (JStr s) = [e, f] @ ''/'' @ [g, i] @ ''/'' @ [a, b, c, d]"
    using \<open>iso_re s\<close> fm by (simp add: formatDate_def sp nd) (simp add: s)
  then show ?thesis by (simp add: s)
qed

lemma formatDate_valid_iso_mdy: "valid_iso_date s \<Longrightarrow> mdy_re (formatDate h (JStr s))"
  by (auto simp: formatDate_valid_iso valid_iso_date_def iso_re_explicit mdy_re_explicit)



section \<open>Path resolution\<close>




text \<open>Reading: a numeric segment finds nothing in a container that is not an array, whatever
  keys it has; and a segment read from \<open>undefined\<close> or \<open>null\<close> gives \<open>undefined\<close>.\<close>

lemma getNestedValue_loop_numeric_needs_array:
  "all_digits part \<Longrightarrow> \<not> isArray current \<Longrightarrow> getNestedValue_loop current (part # parts) = JUndefined"
  by (simp add: Let_def)

lemma getNestedValue_loop_missing:
  "current = JNull \<or> current = JUndefined \<Longrightarrow> getNestedValue_loop current (part # parts) = JUndefined"
  by auto

text \<open>C2. The claim: a numeric segment is an index into a sequence for both
  \<open>getNestedValue\<close> and \<open>setNestedValue\<close>, and a write creates the missing containers so
  that reading the same path gives the value written. On the empty object and the path
  \<open>documents.1.number\<close> the write makes \<open>documents\<close> a plain object, stores an empty array
  under its key \<open>1\<close> and puts the value on that array; reading the path then gives
  \<open>undefined\<close>, since \<open>documents\<close> is no array.\<close>

theorem setNestedValue_numeric_segment_not_read_back:
  "setNestedValue (JObject Plain []) ''documents.1.number'' (JStr ''A123'')
     = Inr (JObject Plain
         [(''documents'', JObject Plain [(''1'', JObject Array [(''number'', JStr ''A123'')])])])
   \<and> getNestedValue
        (JObject Plain
          [(''documents'', JObject Plain [(''1'', JObject Array [(''number'', JStr ''A123'')])])])
        ''documents.1.number'' = JUndefined"
  by code_simp

section \<open>Value mapping\<close>



section \<open>Date formatting\<close>

text \<open>C6. \<open>formatDate\<close> turns \<open>2025-01-15\<close> into \<open>01/15/2025\<close>; a string that already has
  the form \<open>MM/DD/YYYY\<close> comes back as it is, so formatting a calendar date twice is
  formatting it once, as is formatting any value whose first result is empty or of that form;
  and a value that is no date gives the empty string: a string in
  neither format that the host cannot parse, an invalid \<open>Date\<close>, a value that is neither a
  string nor a \<open>Date\<close>. No branch of \<open>formatDate\<close> raises.\<close>

theorem formatDate_format_idempotent_unparseable:
  "formatDate h (JStr ''2025-01-15'') = ''01/15/2025''
   \<and> (\<forall>s. mdy_re s \<longrightarrow> formatDate h (JStr s) = s)
   \<and> (\<forall>s. valid_iso_date s \<longrightarrow>
          formatDate h (JStr (formatDate h (JStr s))) = formatDate h (JStr s))
   \<and> (\<forall>v. formatDate h v = [] \<or> mdy_re (formatDate h v) \<longrightarrow>
          formatDate h (JStr (formatDate h v)) = formatDate h v)
   \<and> (\<forall>s. \<not> iso_re s \<and> \<not> mdy_re s \<and> date_parse h s = InvalidDate \<longrightarrow> formatDate h (JStr s) = [])
   \<and> (\<forall>ps. formatDate h (JObject (DateObj InvalidDate) ps) = [])
   \<and> (\<forall>v. (\<forall>s. v \<noteq> JStr s) \<and> (\<forall>d ps. v \<noteq> JObject (DateObj d) ps) \<longrightarrow> formatDate h v = [])"
proof (intro conjI allI impI)
  show "formatDate h (JStr ''2025-01-15'') = ''01/15/2025''"
    by code_simp
next
  fix s assume "mdy_re s"
  then show "formatDate h (JStr s) = s" by (rule formatDate_mdy)
next
  fix s assume "valid_iso_date s"
  then show "formatDate h (JStr (formatDate h (JStr s))) = formatDate h (JStr s)"
    by (simp add: formatDate_mdy formatDate_valid_iso_mdy)
next
  fix v assume "formatDate h v = [] \<or> mdy_re (formatDate h v)"
  then show "formatDate h (JStr (formatDate h v)) = formatDate h v"
  proof
    assume e: "formatDate h v = []"
    show ?thesis by (simp add: e) (simp add: formatDate_def)
  next
    assume "mdy_re (formatDate h v)"
    then show ?thesis by (rule formatDate_mdy)
  qed
next
  fix s assume "\<not> iso_re s \<and> \<not> mdy_re s \<and> date_parse h s = InvalidDate"
  then show "formatDate h (JStr s) = []"
    by (simp add: formatDate_def format_mdy_def)
next
  fix ps show "formatDate h (JObject (DateObj InvalidDate) ps) = []"
    by (simp add: formatDate_def format_mdy_def)
next
  fix v assume a: "(\<forall>s. v \<noteq> JStr s) \<and> (\<forall>d ps. v \<noteq> JObject (DateObj d) ps)"
  show "formatDate h v = []"
  proof (cases v)
    case (JObject k ps)
    with a show ?thesis by (cases k) (simp_all add: formatDate_def)
  qed (use a in \<open>simp_all add: formatDate_def\<close>)
qed

theorem formatDate_format_idempotent_unparseable_witness:
  "mdy_re ''01/15/2025'' \<and> formatDate strict_host (JStr ''01/15/2025'') = ''01/15/2025''
   \<and> valid_iso_date ''2025-01-15''
   \<and> formatDate strict_host (JStr (formatDate strict_host (JStr ''2025-01-15'')))
       = formatDate strict_host (JStr ''2025-01-15'')
   \<and> \<not> iso_re ''next week'' \<and> \<not> mdy_re ''next week''
   \<and> date_parse strict_host ''next week'' = InvalidDate
   \<and> formatDate strict_host (JStr ''next week'') = []
   \<and> formatDate strict_host (JNum 20250115) = []"
proof -
  have m: "mdy_re ''01/15/2025''" by code_simp
  have v: "valid_iso_date ''2025-01-15''" by code_simp
  have n: "\<not> iso_re ''next week'' \<and> \<not> mdy_re ''next week'' \<and> date_parse strict_host ''next week'' = InvalidDate"
    by (simp add: iso_re_def mdy_re_def strict_host_def)
  show ?thesis
    using m v n formatDate_format_idempotent_unparseable [of strict_host]
    by simp
qed

section \<open>Eligibility validation\<close>

text \<open>C10. On a profile whose \<open>eligibilityInfo\<close> has the shape the constructor gives it
  (the flags for earlier denials and revocations sit inside \<open>workAuthorization\<close>),
  \<open>validateEligibility\<close> is decided by \<open>category\<close> and \<open>applicationPurpose\<close> alone: the
  branch for earlier denials reads members the section does not have and adds no error,
  whatever the flags are.\<close>

theorem validateEligibility_category_and_purpose_only:
  "js_get profile ''eligibilityInfo'' =
      eligibilityInfo_of category categoryDescription basis
        (workAuthorization_of never denied revoked factors) criminalBackground
        applicationPurpose requestedCategory isEligible
   \<Longrightarrow> validateEligibility profile =
      Inr \<lparr> isValid = (truthy category \<and> truthy applicationPurpose),
            errors = (if truthy category then [] else [''EAD category is required''])
                   @ (if truthy applicationPurpose then [] else [''Application purpose is required'']) \<rparr>"
  by (simp add: validateEligibility_def eligibilityInfo_of_def Let_def)

theorem validateEligibility_category_and_purpose_only_witness:
  "js_get fresh_profile ''eligibilityInfo'' =
      eligibilityInfo_of (JStr []) (JStr [])
        (JObject Plain
          [(''deferredActionForChildroodsArrivals'', JBool False),
           (''asylumAdjudication'', JBool False), (''refugeeStatus'', JBool False),
           (''specialImmigrantStatus'', JBool False), (''family'', JBool False),
           (''employment'', JBool False), (''other'', JBool False),
           (''otherDescription'', JStr [])])
        (workAuthorization_of (JBool False) (JBool False) (JBool False) (JObject Array []))
        (JObject Plain [(''hasConverterion'', JBool False), (''convictionDetails'', JStr [])])
        (JStr []) (JStr []) JNull
   \<and> validateEligibility fresh_profile =
        Inr \<lparr> isValid = False,
              errors = [''EAD category is required'', ''Application purpose is required''] \<rparr>
   \<and> validateEligibility (JObject Plain
        [(''eligibilityInfo'',
          eligibilityInfo_of (JStr ''(c)(8)'') (JStr []) (JObject Plain [])
            (workAuthorization_of (JBool False) (JBool True) (JBool True) (JObject Array []))
            (JObject Plain []) (JStr ''initial'') (JStr []) JNull)])
      = Inr \<lparr> isValid = True, errors = [] \<rparr>"
proof -
  have g: "js_get fresh_profile ''eligibilityInfo'' =
      eligibilityInfo_of (JStr []) (JStr [])
        (JObject Plain
          [(''deferredActionForChildroodsArrivals'', JBool False),
           (''asylumAdjudication'', JBool False), (''refugeeStatus'', JBool False),
           (''specialImmigrantStatus'', JBool False), (''family'', JBool False),
           (''employment'', JBool False), (''other'', JBool False),
           (''otherDescription'', JStr [])])
        (workAuthorization_of (JBool False) (JBool False) (JBool False) (JObject Array []))
        (JObject Plain [(''hasConverterion'', JBool False), (''convictionDetails'', JStr [])])
        (JStr []) (JStr []) JNull"
    by (simp add: fresh_profile_def ApplicantProfile_new_def)
  have g': "js_get (JObject Plain
      [(''eligibilityInfo'',
        eligibilityInfo_of (JStr ''(c)(8)'') (JStr []) (JObject Plain [])
          (workAuthorization_of (JBool False) (JBool True) (JBool True) (JObject Array []))
          (JObject Plain []) (JStr ''initial'') (JStr []) JNull)]) ''eligibilityInfo''
    = eligibilityInfo_of (JStr ''(c)(8)'') (JStr []) (JObject Plain [])
          (workAuthorization_of (JBool False) (JBool True) (JBool True) (JObject Array []))
          (JObject Plain []) (JStr ''initial'') (JStr []) JNull"
    by simp
  show ?thesis
    using g validateEligibility_category_and_purpose_only [OF g]
      validateEligibility_category_and_purpose_only [OF g']
    by simp
qed

section \<open>Writing back the value that was read\<close>



lemma isArray_object: "isArray c \<Longrightarrow> \<exists>ps. c = JObject Array ps"
  by (cases c rule: isArray.cases) simp_all




section \<open>The form data built by mapProfileToForm\<close>








section \<open>The keys of the form data\<close>



section \<open>The round trip through the form data\<close>














section \<open>Filling leaves the field names alone\<close>

lemma put_kind_names: "map field_name (put_kind n k fs) = map field_name fs"
  by (induction fs) simp_all

lemma setText_names:
  "setText d f t = Inr d' \<Longrightarrow> map field_name (form_fields d') = map field_name (form_fields d)"
  by (auto simp: setText_def put_kind_names split: field_kind.splits option.splits if_splits)

lemma try_checkbox_names:
  "try_checkbox d n test = Some (d', kind) \<Longrightarrow>
   map field_name (form_fields d') = map field_name (form_fields d)"
  by (auto simp: try_checkbox_def check_def uncheck_def put_kind_names split: sum.splits if_splits)

lemma try_fill_names:
  "try_fill h d n v test = Some (d', kind) \<Longrightarrow>
   map field_name (form_fields d') = map field_name (form_fields d)"
  by (auto simp: try_fill_def split: sum.splits dest: try_checkbox_names setText_names)

lemma fill_variations_names:
  "fill_variations h d ns v = Some (d', n, kind) \<Longrightarrow>
   map field_name (form_fields d') = map field_name (form_fields d)"
  by (induction ns) (auto split: option.splits dest: try_fill_names)

lemma fill_fuzzy_names:
  "fill_fuzzy h d names pdfName v = Some (d', n, kind) \<Longrightarrow>
   map field_name (form_fields d') = map field_name (form_fields d)"
  by (auto simp: fill_fuzzy_def split: option.splits if_splits dest: try_fill_names)

text \<open>The three ways an entry with a PDF name can end.\<close>

lemma fillForm_entry_outcome:
  assumes "pdfFieldName (snd entry) \<noteq> []"
  shows "(\<exists>d' n kind m.
            map field_name (form_fields d') = map field_name (form_fields (doc st)) \<and>
            fillForm_entry h fm names st entry =
              st\<lparr>doc := d', filledFields := filledFields st @
                 [\<lparr>filled_fieldId = fst entry, filled_pdfFieldName = n, filled_type = kind,
                   filled_value = fvalue (snd entry), filled_matched = m\<rparr>]\<rparr>)
         \<or> fillForm_entry h fm names st entry =
              st\<lparr>failedFields := failedFields st @
                 [\<lparr>failed_fieldId = fst entry, failed_pdfFieldName = pdfFieldName (snd entry),
                   failed_value = fvalue (snd entry)\<rparr>]\<rparr>"
proof (cases "fill_variations h (doc st)
      (fieldNameVariations (actual_name fm (pdfFieldName (snd entry))) (pdfFieldName (snd entry)))
      (fvalue (snd entry))")
  case (Some r)
  obtain d' n kind where r: "r = (d', n, kind)" by (cases r) auto
  from fill_variations_names [OF Some [unfolded r]]
  have "map field_name (form_fields d') = map field_name (form_fields (doc st))" .
  moreover have "fillForm_entry h fm names st entry =
      st\<lparr>doc := d', filledFields := filledFields st @
         [\<lparr>filled_fieldId = fst entry, filled_pdfFieldName = n, filled_type = kind,
           filled_value = fvalue (snd entry), filled_matched = False\<rparr>]\<rparr>"
    using assms by (simp add: fillForm_entry_def Let_def Some r)
  ultimately show ?thesis by blast
next
  case None
  show ?thesis
  proof (cases "fill_fuzzy h (doc st) names (pdfFieldName (snd entry)) (fvalue (snd entry))")
    case (Some r)
    obtain d' n kind where r: "r = (d', n, kind)" by (cases r) auto
    from fill_fuzzy_names [OF Some [unfolded r]]
    have "map field_name (form_fields d') = map field_name (form_fields (doc st))" .
    moreover have "fillForm_entry h fm names st entry =
        st\<lparr>doc := d', filledFields := filledFields st @
           [\<lparr>filled_fieldId = fst entry, filled_pdfFieldName = n, filled_type = kind,
             filled_value = fvalue (snd entry), filled_matched = True\<rparr>]\<rparr>"
      using assms by (simp add: fillForm_entry_def Let_def None Some r)
    ultimately show ?thesis by blast
  next
    case fz: None
    have "fillForm_entry h fm names st entry =
              st\<lparr>failedFields := failedFields st @
                 [\<lparr>failed_fieldId = fst entry, failed_pdfFieldName = pdfFieldName (snd entry),
                   failed_value = fvalue (snd entry)\<rparr>]\<rparr>"
      using assms by (simp add: fillForm_entry_def Let_def None fz)
    then show ?thesis by blast
  qed
qed

lemma fillForm_entry_skip: "pdfFieldName (snd entry) = [] \<Longrightarrow> fillForm_entry h fm names st entry = st"
  by (simp add: fillForm_entry_def Let_def)

lemma fillForm_entry_names:
  "map field_name (form_fields (doc (fillForm_entry h fm names st entry)))
     = map field_name (form_fields (doc st))"
proof (cases "pdfFieldName (snd entry) = []")
  case True
  then show ?thesis by (simp add: fillForm_entry_skip)
next
  case False
  from fillForm_entry_outcome [OF False, of st h fm names] show ?thesis by auto
qed

lemma fillForm_entries_names:
  "map field_name (form_fields (doc (fillForm_entries h fm names st entries)))
     = map field_name (form_fields (doc st))"
  unfolding fillForm_entries_def
  by (induction entries arbitrary: st) (simp_all add: fillForm_entry_names)

section \<open>A name no field answers to\<close>

lemma getFieldMaybe_None:
  "getFieldMaybe d n = None \<longleftrightarrow> n \<notin> set (map field_name (form_fields d))"
  by (auto simp: getFieldMaybe_def find_None_iff)

lemma try_fill_absent:
  "n \<notin> set (map field_name (form_fields d)) \<Longrightarrow> try_fill h d n v test = None"
  using getFieldMaybe_None [of d n]
  by (simp add: try_fill_def try_checkbox_def getTextField_def getCheckBox_def)

lemma fill_variations_absent:
  "\<forall>n \<in> set ns. n \<notin> set (map field_name (form_fields d)) \<Longrightarrow> fill_variations h d ns v = None"
  by (induction ns) (simp_all add: try_fill_absent)

lemma fillForm_entry_unmatched:
  assumes "pdfFieldName fieldData \<noteq> []"
    and "fm (pdfFieldName fieldData) = None"
    and "\<forall>n \<in> set (fieldNameVariations (pdfFieldName fieldData) (pdfFieldName fieldData)).
           n \<notin> set (map field_name (form_fields (doc st)))"
    and "\<forall>n \<in> set names. \<not> fuzzy_match (pdfFieldName fieldData) n"
  shows "fillForm_entry h fm names st (fieldId, fieldData) =
           st\<lparr>failedFields := failedFields st @
                 [\<lparr>failed_fieldId = fieldId, failed_pdfFieldName = pdfFieldName fieldData,
                   failed_value = fvalue fieldData\<rparr>]\<rparr>"
proof -
  have v: "fill_variations h (doc st)
      (fieldNameVariations (pdfFieldName fieldData) (pdfFieldName fieldData)) (fvalue fieldData) = None"
    by (rule fill_variations_absent [OF assms(3)])
  have "find (fuzzy_match (pdfFieldName fieldData)) names = None"
    using assms(4) by (simp add: find_None_iff)
  then have f: "fill_fuzzy h (doc st) names (pdfFieldName fieldData) (fvalue fieldData) = None"
    by (simp add: fill_fuzzy_def)
  have a: "actual_name fm (pdfFieldName fieldData) = pdfFieldName fieldData"
    using assms(2) by (simp add: actual_name_def)
  show ?thesis
    using assms(1) by (simp add: fillForm_entry_def Let_def a v f)
qed



section \<open>The list of failures does not steer the filling\<close>

lemma fillForm_entry_failed_irrelevant:
  assumes "doc st1 = doc st2" "filledFields st1 = filledFields st2"
  shows "doc (fillForm_entry h fm names st1 entry) = doc (fillForm_entry h fm names st2 entry) \<and>
   filledFields (fillForm_entry h fm names st1 entry) = filledFields (fillForm_entry h fm names st2 entry)"
proof -
  obtain d f x1 where s1: "st1 = \<lparr>doc = d, filledFields = f, failedFields = x1\<rparr>"
    by (cases st1) simp
  obtain x2 where s2: "st2 = \<lparr>doc = d, filledFields = f, failedFields = x2\<rparr>"
    using assms s1 by (cases st2) simp
  show ?thesis
  proof (cases "fill_variations h d
      (fieldNameVariations (actual_name fm (pdfFieldName (snd entry))) (pdfFieldName (snd entry)))
      (fvalue (snd entry))")
    case (Some r)
    obtain d' n kind where r: "r = (d', n, kind)" by (cases r) auto
    show ?thesis unfolding s1 s2 by (simp add: fillForm_entry_def Let_def Some r)
  next
    case None
    show ?thesis
    proof (cases "fill_fuzzy h d names (pdfFieldName (snd entry)) (fvalue (snd entry))")
      case (Some r)
      obtain d' n kind where r: "r = (d', n, kind)" by (cases r) auto
      show ?thesis unfolding s1 s2 by (simp add: fillForm_entry_def Let_def None Some r)
    next
      case fz: None
      show ?thesis unfolding s1 s2 by (simp add: fillForm_entry_def Let_def None fz)
    qed
  qed
qed

lemma fillForm_entries_failed_irrelevant:
  "doc st1 = doc st2 \<Longrightarrow> filledFields st1 = filledFields st2 \<Longrightarrow>
   doc (fillForm_entries h fm names st1 entries) = doc (fillForm_entries h fm names st2 entries) \<and>
   filledFields (fillForm_entries h fm names st1 entries)
     = filledFields (fillForm_entries h fm names st2 entries)"
  unfolding fillForm_entries_def
proof (induction entries arbitrary: st1 st2)
  case Nil
  then show ?case by simp
next
  case (Cons e es)
  from fillForm_entry_failed_irrelevant [OF Cons.prems, of h fm names e]
  have a: "doc (fillForm_entry h fm names st1 e) = doc (fillForm_entry h fm names st2 e)"
    and b: "filledFields (fillForm_entry h fm names st1 e) = filledFields (fillForm_entry h fm names st2 e)"
    by simp_all
  from Cons.IH [OF a b] show ?case by simp
qed

lemma fillForm_entry_failed_mono:
  "set (failedFields st) \<subseteq> set (failedFields (fillForm_entry h fm names st entry))"
proof (cases "pdfFieldName (snd entry) = []")
  case True
  then show ?thesis by (simp add: fillForm_entry_skip)
next
  case False
  from fillForm_entry_outcome [OF False, of st h fm names] show ?thesis by auto
qed

lemma fillForm_entries_failed_mono:
  "set (failedFields st) \<subseteq> set (failedFields (fillForm_entries h fm names st entries))"
  unfolding fillForm_entries_def
proof (induction entries arbitrary: st)
  case Nil
  then show ?case by simp
next
  case (Cons e es)
  from fillForm_entry_failed_mono [of st h fm names e] Cons.IH [of "fillForm_entry h fm names st e"]
  show ?case by auto
qed

lemma fillForm_entries_append:
  "fillForm_entries h fm names st (xs @ ys)
     = fillForm_entries h fm names (fillForm_entries h fm names st xs) ys"
  by (simp add: fillForm_entries_def)

section \<open>fillForm on a processor that holds a template\<close>

lemma load_save: "load (save d) = Inr d"
  by (simp add: save_def)

lemma fillForm_with_template:
  assumes "templatePDF (this w) = Some t" "pdfLib (this w)" "deref (store w) t = Some template"
  shows "fillForm h w formData options =
     (Inr (save (if flatten options then flatten_form (doc (fill_document h template formData))
                 else doc (fill_document h template formData))),
      w\<lparr>store := store w @
            [if flatten options then flatten_form (doc (fill_document h template formData))
             else doc (fill_document h template formData)]\<rparr>)"
  using assms by (simp add: fillForm_def load_save Let_def deref_def)

text \<open>C7. An entry of the form data whose declared PDF name has no candidate in the
  template (no entry of the alias table, no field under one of the name variations, no field
  name that matches fuzzily) is appended to the failed fields and changes nothing else; the
  entries after it are processed from that state, so the document and the filled fields come
  out as if the entry had not been there; and \<open>fillForm\<close> returns the saved document.\<close>

theorem fillForm_unmatched_field_recorded_and_skipped:
  assumes entries: "js_entries formData = before @ (fieldId, fieldData) # after"
    and name: "pdfFieldName fieldData \<noteq> []"
    and nc: "no_candidate template (pdfFieldName fieldData)"
    and tpl: "templatePDF (this w) = Some t" "pdfLib (this w)" "deref (store w) t = Some template"
  shows "\<lparr>failed_fieldId = fieldId, failed_pdfFieldName = pdfFieldName fieldData,
           failed_value = fvalue fieldData\<rparr> \<in> set (failedFields (fill_document h template formData))
    \<and> fill_document h template formData =
        fillForm_entries h (buildFieldNameMapping (form_fields template))
          (map field_name (form_fields template))
          ((fillForm_entries h (buildFieldNameMapping (form_fields template))
              (map field_name (form_fields template))
              \<lparr>doc = template, filledFields = [], failedFields = []\<rparr> before)
           \<lparr>failedFields :=
              failedFields (fillForm_entries h (buildFieldNameMapping (form_fields template))
                 (map field_name (form_fields template))
                 \<lparr>doc = template, filledFields = [], failedFields = []\<rparr> before)
              @ [\<lparr>failed_fieldId = fieldId, failed_pdfFieldName = pdfFieldName fieldData,
                   failed_value = fvalue fieldData\<rparr>]\<rparr>)
          after
    \<and> doc (fill_document h template formData) =
        doc (fillForm_entries h (buildFieldNameMapping (form_fields template))
               (map field_name (form_fields template))
               \<lparr>doc = template, filledFields = [], failedFields = []\<rparr> (before @ after))
    \<and> filledFields (fill_document h template formData) =
        filledFields (fillForm_entries h (buildFieldNameMapping (form_fields template))
               (map field_name (form_fields template))
               \<lparr>doc = template, filledFields = [], failedFields = []\<rparr> (before @ after))
    \<and> fst (fillForm h w formData options) =
        Inr (save (if flatten options then flatten_form (doc (fill_document h template formData))
                   else doc (fill_document h template formData)))"
proof -
  let ?fm = "buildFieldNameMapping (form_fields template)"
  let ?names = "map field_name (form_fields template)"
  let ?st0 = "\<lparr>doc = template, filledFields = [], failedFields = []\<rparr>"
  let ?st1 = "fillForm_entries h ?fm ?names ?st0 before"
  let ?rec = "\<lparr>failed_fieldId = fieldId, failed_pdfFieldName = pdfFieldName fieldData,
           failed_value = fvalue fieldData\<rparr>"
  let ?st2 = "?st1\<lparr>failedFields := failedFields ?st1 @ [?rec]\<rparr>"
  have names1: "map field_name (form_fields (doc ?st1)) = ?names"
    by (simp add: fillForm_entries_names)
  from nc have noalias: "?fm (pdfFieldName fieldData) = None"
    and vars: "\<forall>n \<in> set (fieldNameVariations (pdfFieldName fieldData) (pdfFieldName fieldData)).
                 getFieldMaybe template n = None"
    and fuzzy: "\<forall>n \<in> set ?names. \<not> fuzzy_match (pdfFieldName fieldData) n"
    by (simp_all add: no_candidate_def)
  have vars1: "\<forall>n \<in> set (fieldNameVariations (pdfFieldName fieldData) (pdfFieldName fieldData)).
                 n \<notin> set (map field_name (form_fields (doc ?st1)))"
    using vars by (simp only: names1 getFieldMaybe_None) 
  have step: "fillForm_entry h ?fm ?names ?st1 (fieldId, fieldData) = ?st2"
    using name noalias vars1 fuzzy
    by (rule fillForm_entry_unmatched [where fm = "?fm" and st = "?st1" and names = "?names"])
  have whole: "fill_document h template formData = fillForm_entries h ?fm ?names ?st2 after"
  proof -
    have "fill_document h template formData
        = fillForm_entries h ?fm ?names ?st0 (before @ (fieldId, fieldData) # after)"
      by (simp add: fill_document_def entries)
    also have "\<dots> = fillForm_entries h ?fm ?names
        (fillForm_entry h ?fm ?names ?st1 (fieldId, fieldData)) after"
      by (simp add: fillForm_entries_def)
    finally show ?thesis by (simp only: step)
  qed
  have "?rec \<in> set (failedFields ?st2)" by simp
  with fillForm_entries_failed_mono [of ?st2 h ?fm ?names after]
  have recorded: "?rec \<in> set (failedFields (fill_document h template formData))"
    by (auto simp only: whole)
  have same: "doc ?st2 = doc ?st1" "filledFields ?st2 = filledFields ?st1" by simp_all
  from fillForm_entries_failed_irrelevant [OF same, of h ?fm ?names after]
  have rest: "doc (fillForm_entries h ?fm ?names ?st2 after)
        = doc (fillForm_entries h ?fm ?names ?st0 (before @ after))"
      "filledFields (fillForm_entries h ?fm ?names ?st2 after)
        = filledFields (fillForm_entries h ?fm ?names ?st0 (before @ after))"
    by (simp_all add: fillForm_entries_append)
  have ret: "fst (fillForm h w formData options) =
        Inr (save (if flatten options then flatten_form (doc (fill_document h template formData))
                   else doc (fill_document h template formData)))"
    by (simp add: fillForm_with_template [OF tpl])
  show ?thesis
    using recorded whole rest ret by (simp only: simp_thms)
qed



section \<open>The alias table has item numbers as keys\<close>

lemma fold_dom_insert:
  assumes "\<And>x m. dom (f x m) \<subseteq> insert k (dom m)"
  shows "dom (fold f xs m) \<subseteq> insert k (dom m)"
proof (induction xs arbitrary: m)
  case Nil
  show ?case by auto
next
  case (Cons x xs)
  have "dom (fold f xs (f x m)) \<subseteq> insert k (dom (f x m))" by (rule Cons.IH)
  moreover have "dom (f x m) \<subseteq> insert k (dom m)" by (rule assms)
  ultimately have "dom (fold f xs (f x m)) \<subseteq> insert k (dom m)" by blast
  then show ?case by simp
qed

lemma fold_dom_keys:
  assumes "\<And>e m. dom (f e m) \<subseteq> insert (fst e) (dom m)"
  shows "dom (fold f es m) \<subseteq> fst ` set es \<union> dom m"
proof (induction es arbitrary: m)
  case Nil
  show ?case by simp
next
  case (Cons e es)
  have "dom (fold f es (f e m)) \<subseteq> fst ` set es \<union> dom (f e m)" by (rule Cons.IH)
  moreover have "dom (f e m) \<subseteq> insert (fst e) (dom m)" by (rule assms)
  ultimately have "dom (fold f es (f e m)) \<subseteq> fst ` set (e # es) \<union> dom m" by auto
  then show ?case by simp
qed

lemma alias_patterns_dom:
  "dom (fold (\<lambda>pattern mapping.
              if pattern_matches n pattern \<and> mapping k = None
              then mapping(k \<mapsto> x) else mapping) pats m) \<subseteq> insert k (dom m)"
  by (rule fold_dom_insert) auto

lemma alias_fields_dom:
  "dom (fold (\<lambda>f mapping.
           fold (\<lambda>pattern mapping.
              if pattern_matches (toLowerCase (field_name f)) pattern \<and> mapping k = None
              then mapping(k \<mapsto> field_name f) else mapping)
             pats mapping) fs m) \<subseteq> insert k (dom m)"
  by (rule fold_dom_insert) (rule alias_patterns_dom)

lemma alias_entries_dom:
  "dom (fold (\<lambda>entry mapping.
        fold (\<lambda>f mapping.
           fold (\<lambda>pattern mapping.
              if pattern_matches (toLowerCase (field_name f)) pattern \<and> mapping (fst entry) = None
              then mapping(fst entry \<mapsto> field_name f) else mapping)
             (snd entry) mapping)
          fs mapping) es m) \<subseteq> fst ` set es \<union> dom m"
  by (rule fold_dom_keys) (rule alias_fields_dom)

lemma set_js_entries: "set (js_entries ps) = set ps"
  by (auto simp: js_entries_def)

lemma fieldPatterns_keys:
  "map fst fieldPatterns =
     [''1.a.'', ''1.b.'', ''1.c.'', ''5.a.'', ''5.b.'', ''5.c.'', ''5.d.'', ''5.e.'', ''5.f.'',
      ''8.'', ''9.'', ''10.'', ''11.'', ''12.'', ''13.a.'', ''13.b.'', ''14.'', ''15.'', ''20.'',
      ''21.a.'', ''27.'']"
  by code_simp

lemma buildFieldNameMapping_keys:
  "k \<notin> set (map fst fieldPatterns) \<Longrightarrow> buildFieldNameMapping fs k = None"
proof -
  assume k: "k \<notin> set (map fst fieldPatterns)"
  have "dom (buildFieldNameMapping fs)
      \<subseteq> fst ` set (js_entries fieldPatterns) \<union> dom (Map.empty :: string \<rightharpoonup> string)"
    unfolding buildFieldNameMapping_def by (rule alias_entries_dom)
  then have "dom (buildFieldNameMapping fs) \<subseteq> set (map fst fieldPatterns)"
    by (simp add: set_js_entries)
  with k show ?thesis by blast
qed

section \<open>Evaluating a fill\<close>

lemma reason_world_eq:
  "reason_world = \<lparr> this = \<lparr>pdfLib = True, templatePDF = Some 0, initialized = True\<rparr>,
                     store = [reason_template] \<rparr>"
  by (simp add: reason_world_def loadTemplate_def initialize_def new_world_def PDFProcessor_new_def
        browser_env_def save_def Let_def)

lemma reason_world_template:
  "templatePDF (this reason_world) = Some 0" "pdfLib (this reason_world)"
  "deref (store reason_world) 0 = Some reason_template"
  by (simp_all add: reason_world_eq deref_def)

lemma no_alias_Part9: "buildFieldNameMapping fs ''Part9_nothing'' = None"
  by (rule buildFieldNameMapping_keys) (simp add: fieldPatterns_keys)

lemma no_candidate_Part9: "no_candidate reason_template ''Part9_nothing''"
proof -
  have v: "\<forall>n \<in> set (fieldNameVariations ''Part9_nothing'' ''Part9_nothing'').
             getFieldMaybe reason_template n = None"
    by code_simp
  have f: "\<forall>n \<in> set (map field_name (form_fields reason_template)). \<not> fuzzy_match ''Part9_nothing'' n"
    by code_simp
  show ?thesis using v f by (simp add: no_candidate_def no_alias_Part9)
qed



lemma js_entries_no_index:
  "\<forall>p \<in> set ps. \<not> all_digits (fst p) \<Longrightarrow> js_entries ps = ps"
proof -
  assume a: "\<forall>p \<in> set ps. \<not> all_digits (fst p)"
  then have n: "\<forall>p \<in> set ps. \<not> is_array_index (fst p)" by (simp add: is_array_index_def)
  then have "filter (\<lambda>p. is_array_index (fst p)) ps = []" by (simp add: filter_empty_conv)
  moreover from n have "filter (\<lambda>p. \<not> is_array_index (fst p)) ps = ps" by (simp add: filter_id_conv)
  ultimately show ?thesis by (simp add: js_entries_def)
qed

lemma three_entries_order:
  "js_entries three_entries = [(''a'', family_entry ''form1.Pt2_family'')]
       @ (''b'', reason_entry ''Part9_nothing'') # [(''c'', reason_entry ''form1.Pt1_reason'')]"
proof -
  have "\<not> all_digits ''a''" "\<not> all_digits ''b''" "\<not> all_digits ''c''" by code_simp+
  then have "js_entries three_entries = three_entries"
    by (intro js_entries_no_index) (simp add: three_entries_def)
  then show ?thesis by (simp add: three_entries_def)
qed

theorem fillForm_unmatched_field_recorded_and_skipped_witness:
  "js_entries three_entries = [(''a'', family_entry ''form1.Pt2_family'')]
       @ (''b'', reason_entry ''Part9_nothing'') # [(''c'', reason_entry ''form1.Pt1_reason'')]
   \<and> pdfFieldName (reason_entry ''Part9_nothing'') \<noteq> []
   \<and> no_candidate reason_template (pdfFieldName (reason_entry ''Part9_nothing''))
   \<and> templatePDF (this reason_world) = Some 0 \<and> pdfLib (this reason_world)
   \<and> deref (store reason_world) 0 = Some reason_template
   \<and> \<lparr>failed_fieldId = ''b'', failed_pdfFieldName = pdfFieldName (reason_entry ''Part9_nothing''),
        failed_value = fvalue (reason_entry ''Part9_nothing'')\<rparr>
        \<in> set (failedFields (fill_document strict_host reason_template three_entries))
   \<and> fst (fillForm strict_host reason_world three_entries default_options) =
        Inr (save (if flatten default_options
                   then flatten_form (doc (fill_document strict_host reason_template three_entries))
                   else doc (fill_document strict_host reason_template three_entries)))"
proof -
  have e: "js_entries three_entries = [(''a'', family_entry ''form1.Pt2_family'')]
       @ (''b'', reason_entry ''Part9_nothing'') # [(''c'', reason_entry ''form1.Pt1_reason'')]"
    by (rule three_entries_order)
  have n: "pdfFieldName (reason_entry ''Part9_nothing'') \<noteq> []"
    by (simp add: reason_entry_def)
  have c: "no_candidate reason_template (pdfFieldName (reason_entry ''Part9_nothing''))"
    using no_candidate_Part9 by (simp add: reason_entry_def)
  note t = fillForm_unmatched_field_recorded_and_skipped
             [OF e n c reason_world_template, of strict_host default_options]
  from t have r: "\<lparr>failed_fieldId = ''b'', failed_pdfFieldName = pdfFieldName (reason_entry ''Part9_nothing''),
        failed_value = fvalue (reason_entry ''Part9_nothing'')\<rparr>
        \<in> set (failedFields (fill_document strict_host reason_template three_entries))"
    by (rule conjunct1)
  from t have b: "fst (fillForm strict_host reason_world three_entries default_options) =
        Inr (save (if flatten default_options
                   then flatten_form (doc (fill_document strict_host reason_template three_entries))
                   else doc (fill_document strict_host reason_template three_entries)))"
    by (rule conjunct2 [OF conjunct2 [OF conjunct2 [OF conjunct2]]])
  from e n c reason_world_template r b show ?thesis by (intro conjI)
qed

lemma reason_only_entry: "js_entries [(''reason'', e)] = [(''reason'', e)]"
proof -
  have "\<not> all_digits ''reason''" by code_simp
  then show ?thesis by (intro js_entries_no_index) simp
qed

lemma fill_document_single:
  "js_entries formData = [entry] \<Longrightarrow>
   fill_document h d formData =
     fillForm_entry h (buildFieldNameMapping (form_fields d)) (map field_name (form_fields d))
       \<lparr>doc = d, filledFields = [], failedFields = []\<rparr> entry"
  by (simp add: fill_document_def fillForm_entries_def)

text \<open>C4. The claim: a check box is checked exactly for \<open>true\<close>, \<open>X\<close>, \<open>checked\<close>,
  \<open>Yes\<close>, \<open>initial\<close>, \<open>replacement\<close> and \<open>renewal\<close>, on every path by which the field
  is found. On the template whose box \<open>form1.Pt1_reason\<close> is checked, the value
  \<open>initial\<close> declared for \<open>form1.Pt1_reason\<close> (found as a name variation) leaves the box
  checked; declared for \<open>Pt1_reason\<close> (found by the fuzzy match only) it unchecks the box:
  the test after a fuzzy match does not know the token.\<close>

theorem fillForm_fuzzy_match_unchecks_initial:
  "check_test_variation (JStr ''initial'') \<and> \<not> check_test_fuzzy (JStr ''initial'')
   \<and> fst (fillForm strict_host reason_world [(''reason'', reason_entry ''form1.Pt1_reason'')]
            default_options)
       = Inr (save \<lparr> form_fields =
                 [\<lparr> field_name = ''form1.Pt1_reason'', field_kind = CheckBox True \<rparr>,
                  \<lparr> field_name = ''form1.Pt2_family'', field_kind = TextField None (Some 5) \<rparr>],
               burnt = [] \<rparr>)
   \<and> fst (fillForm strict_host reason_world [(''reason'', reason_entry ''Pt1_reason'')]
            default_options)
       = Inr (save \<lparr> form_fields =
                 [\<lparr> field_name = ''form1.Pt1_reason'', field_kind = CheckBox False \<rparr>,
                  \<lparr> field_name = ''form1.Pt2_family'', field_kind = TextField None (Some 5) \<rparr>],
               burnt = [] \<rparr>)"
proof -
  let ?fm = "buildFieldNameMapping (form_fields reason_template)"
  let ?names = "map field_name (form_fields reason_template)"
  let ?checked = "\<lparr> form_fields =
                 [\<lparr> field_name = ''form1.Pt1_reason'', field_kind = CheckBox True \<rparr>,
                  \<lparr> field_name = ''form1.Pt2_family'', field_kind = TextField None (Some 5) \<rparr>],
               burnt = [] \<rparr>"
  let ?unchecked = "\<lparr> form_fields =
                 [\<lparr> field_name = ''form1.Pt1_reason'', field_kind = CheckBox False \<rparr>,
                  \<lparr> field_name = ''form1.Pt2_family'', field_kind = TextField None (Some 5) \<rparr>],
               burnt = [] \<rparr>"
  have t: "check_test_variation (JStr ''initial'')" "\<not> check_test_fuzzy (JStr ''initial'')"
    by (simp_all add: check_test_variation_def check_test_fuzzy_def)
  have a1: "actual_name ?fm ''form1.Pt1_reason'' = ''form1.Pt1_reason''"
    by (simp add: actual_name_def buildFieldNameMapping_keys fieldPatterns_keys)
  have a2: "actual_name ?fm ''Pt1_reason'' = ''Pt1_reason''"
    by (simp add: actual_name_def buildFieldNameMapping_keys fieldPatterns_keys)
  have v1: "fill_variations strict_host reason_template
      (fieldNameVariations ''form1.Pt1_reason'' ''form1.Pt1_reason'') (JStr ''initial'')
      = Some (?checked, ''form1.Pt1_reason'', ''checkbox'')"
    by code_simp
  have v2: "fill_variations strict_host reason_template
      (fieldNameVariations ''Pt1_reason'' ''Pt1_reason'') (JStr ''initial'') = None"
    by code_simp
  have f2: "fill_fuzzy strict_host reason_template ?names ''Pt1_reason'' (JStr ''initial'')
      = Some (?unchecked, ''form1.Pt1_reason'', ''checkbox'')"
    by code_simp
  have d1: "doc (fill_document strict_host reason_template
      [(''reason'', reason_entry ''form1.Pt1_reason'')]) = ?checked"
    by (simp add: fill_document_single [OF reason_only_entry] fillForm_entry_def Let_def
          reason_entry_def a1 v1)
  have d2: "doc (fill_document strict_host reason_template
      [(''reason'', reason_entry ''Pt1_reason'')]) = ?unchecked"
    by (simp add: fill_document_single [OF reason_only_entry] fillForm_entry_def Let_def
          reason_entry_def a2 v2 f2)
  have o: "\<not> flatten default_options" by (simp add: default_options_def)
  have r1: "fst (fillForm strict_host reason_world [(''reason'', reason_entry ''form1.Pt1_reason'')]
            default_options) = Inr (save ?checked)"
    by (simp add: fillForm_with_template [OF reason_world_template] o d1)
  have r2: "fst (fillForm strict_host reason_world [(''reason'', reason_entry ''Pt1_reason'')]
            default_options) = Inr (save ?unchecked)"
    by (simp add: fillForm_with_template [OF reason_world_template] o d2)
  from t r1 r2 show ?thesis by (intro conjI)
qed

section \<open>The template and the processor across calls\<close>

lemma loadTemplate_ok:
  assumes "fst (loadTemplate e w src) = Inr ()"
  shows "\<exists>w1 d. snd (loadTemplate e w src) =
            w1\<lparr>this := (this w1)\<lparr>templatePDF := Some (length (store w1))\<rparr>,
               store := store w1 @ [d]\<rparr> \<and> pdfLib (this w1)"
proof -
  let ?w1 = "if \<not> initialized (this w) then snd (initialize e w) else w"
  let ?buf = "case src of FromUrl url \<Rightarrow> fetch e url | FromBuffer b \<Rightarrow> Inr b
              | OtherSource \<Rightarrow> Inl (Error ''Invalid template source'')"
  have lib: "pdfLib (this ?w1)"
  proof (rule ccontr)
    assume "\<not> pdfLib (this ?w1)"
    then have "fst (loadTemplate e w src) = Inl (Error ''PDF library not initialized'')"
      by (simp add: loadTemplate_def Let_def)
    with assms show False by simp
  qed
  show ?thesis
  proof (cases ?buf)
    case (Inl err)
    then have "fst (loadTemplate e w src) = Inl err"
      using lib by (simp add: loadTemplate_def Let_def)
    with assms show ?thesis by simp
  next
    case (Inr arrayBuffer)
    show ?thesis
    proof (cases "load arrayBuffer")
      case (Inl err)
      then have "fst (loadTemplate e w src) = Inl err"
        using lib Inr by (simp add: loadTemplate_def Let_def)
      with assms show ?thesis by simp
    next
      case ld: (Inr d)
      have "snd (loadTemplate e w src) =
            ?w1\<lparr>this := (this ?w1)\<lparr>templatePDF := Some (length (store ?w1))\<rparr>,
               store := store ?w1 @ [d]\<rparr>"
        using lib Inr ld by (simp add: loadTemplate_def Let_def)
      with lib show ?thesis by blast
    qed
  qed
qed

text \<open>C8. Without a template, \<open>fillForm\<close> and \<open>getFormFieldNames\<close> raise the error
  \<open>PDF template not loaded\<close> and leave the processor and its documents as they were; once
  \<open>loadTemplate\<close> has succeeded on that processor, both calls return.\<close>

theorem missing_template_fails_the_call_only:
  assumes "templatePDF (this w) = None"
  shows "fillForm h w formData options = (Inl (Error ''PDF template not loaded''), w)
    \<and> getFormFieldNames w = (Inl (Error ''PDF template not loaded''), w)
    \<and> (\<forall>e src. fst (loadTemplate e w src) = Inr () \<longrightarrow>
          (\<exists>bytes w'. fillForm h (snd (loadTemplate e w src)) formData options = (Inr bytes, w'))
          \<and> (\<exists>names. getFormFieldNames (snd (loadTemplate e w src))
                      = (Inr names, snd (loadTemplate e w src))))"
proof (intro conjI allI impI)
  show "fillForm h w formData options = (Inl (Error ''PDF template not loaded''), w)"
    using assms by (simp add: fillForm_def)
  show "getFormFieldNames w = (Inl (Error ''PDF template not loaded''), w)"
    using assms by (simp add: getFormFieldNames_def)
next
  fix e src assume ok: "fst (loadTemplate e w src) = Inr ()"
  from loadTemplate_ok [OF ok] obtain w1 d where
    w2: "snd (loadTemplate e w src) =
            w1\<lparr>this := (this w1)\<lparr>templatePDF := Some (length (store w1))\<rparr>,
               store := store w1 @ [d]\<rparr>" and lib: "pdfLib (this w1)"
    by blast
  let ?w2 = "snd (loadTemplate e w src)"
  have t: "templatePDF (this ?w2) = Some (length (store w1))" "pdfLib (this ?w2)"
    "deref (store ?w2) (length (store w1)) = Some d"
    using lib by (simp_all add: w2 deref_def)
  from fillForm_with_template [OF t, of h formData options]
  show "\<exists>bytes w'. fillForm h ?w2 formData options = (Inr bytes, w')" by blast
  show "\<exists>names. getFormFieldNames ?w2 = (Inr names, ?w2)"
    using t by (simp add: getFormFieldNames_def)
qed

theorem missing_template_fails_the_call_only_witness:
  "templatePDF (this new_world) = None
   \<and> fillForm strict_host new_world three_entries default_options
       = (Inl (Error ''PDF template not loaded''), new_world)
   \<and> getFormFieldNames new_world = (Inl (Error ''PDF template not loaded''), new_world)
   \<and> fst (loadTemplate browser_env new_world (FromBuffer (save reason_template))) = Inr ()
   \<and> (\<exists>bytes w'. fillForm strict_host reason_world three_entries default_options = (Inr bytes, w'))
   \<and> getFormFieldNames reason_world = (Inr [''form1.Pt1_reason'', ''form1.Pt2_family''], reason_world)"
proof -
  have n: "templatePDF (this new_world) = None"
    by (simp add: new_world_def PDFProcessor_new_def)
  have l: "fst (loadTemplate browser_env new_world (FromBuffer (save reason_template))) = Inr ()"
    by (simp add: loadTemplate_def initialize_def new_world_def PDFProcessor_new_def
          browser_env_def save_def Let_def)
  note t = missing_template_fails_the_call_only [OF n, of strict_host three_entries default_options]
  from t have a: "fillForm strict_host new_world three_entries default_options
       = (Inl (Error ''PDF template not loaded''), new_world)"
    by (rule conjunct1)
  from t have b: "getFormFieldNames new_world = (Inl (Error ''PDF template not loaded''), new_world)"
    by (rule conjunct1 [OF conjunct2])
  from t l have c: "\<exists>bytes w'. fillForm strict_host reason_world three_entries default_options
       = (Inr bytes, w')"
    unfolding reason_world_def by blast
  have g: "getFormFieldNames reason_world
       = (Inr [''form1.Pt1_reason'', ''form1.Pt2_family''], reason_world)"
    by (simp add: getFormFieldNames_def reason_world_eq deref_def reason_template_def)
  from n a b l c g show ?thesis by (intro conjI)
qed

section \<open>The template is not touched\<close>

lemma fillForm_frame:
  "this (snd (fillForm h w formData options)) = this w \<and>
   (\<exists>extra. store (snd (fillForm h w formData options)) = store w @ extra)"
proof (cases "templatePDF (this w)")
  case None
  then show ?thesis by (simp add: fillForm_def)
next
  case (Some t)
  show ?thesis
  proof (cases "pdfLib (this w)")
    case False
    with Some show ?thesis by (simp add: fillForm_def)
  next
    case True
    show ?thesis
    proof (cases "deref (store w) t")
      case None
      with Some True show ?thesis by (simp add: fillForm_def)
    next
      case tm: (Some template)
      show ?thesis by (simp add: fillForm_with_template [OF Some True tm])
    qed
  qed
qed

lemma fillForm_many_frame:
  "this (fillForm_many h w calls) = this w \<and>
   (\<exists>extra. store (fillForm_many h w calls) = store w @ extra)"
proof (induction calls arbitrary: w)
  case Nil
  show ?case by simp
next
  case (Cons c cs)
  let ?w1 = "snd (fillForm h w (fst c) (snd c))"
  from fillForm_frame [of h w "fst c" "snd c"] obtain x1 where
    p1: "this ?w1 = this w" and s1: "store ?w1 = store w @ x1" by blast
  from Cons.IH [of ?w1] obtain x2 where
    p2: "this (fillForm_many h ?w1 cs) = this ?w1"
    and s2: "store (fillForm_many h ?w1 cs) = store ?w1 @ x2" by blast
  have "store (fillForm_many h w (c # cs)) = store w @ (x1 @ x2)"
    by (simp add: s2 s1)
  moreover have "this (fillForm_many h w (c # cs)) = this w" by (simp add: p2 p1)
  ultimately show ?case by blast
qed

lemma deref_append: "deref s t = Some d \<Longrightarrow> deref (s @ extra) t = Some d"
  by (auto simp: deref_def nth_append split: if_splits)

text \<open>C9. Whatever fill operations run, one after the other, the processor still refers to
  the same template, that document is what it was (so it saves to the same bytes), and the
  processor's own members are unchanged; a fill loads the bytes the template saves to and
  fills that clone, a new document of the store.\<close>

theorem fillForm_never_touches_the_template:
  assumes "templatePDF (this w) = Some t" "deref (store w) t = Some template"
  shows "templatePDF (this (fillForm_many h w calls)) = Some t
    \<and> deref (store (fillForm_many h w calls)) t = Some template
    \<and> this (fillForm_many h w calls) = this w
    \<and> (pdfLib (this w) \<longrightarrow>
         fillForm h w formData options =
           (Inr (save (if flatten options
                       then flatten_form (doc (fill_document h template formData))
                       else doc (fill_document h template formData))),
            w\<lparr>store := store w @
              [if flatten options then flatten_form (doc (fill_document h template formData))
               else doc (fill_document h template formData)]\<rparr>))"
proof -
  from fillForm_many_frame [of h w calls] obtain extra where
    p: "this (fillForm_many h w calls) = this w"
    and s: "store (fillForm_many h w calls) = store w @ extra" by blast
  have a: "templatePDF (this (fillForm_many h w calls)) = Some t" by (simp add: p assms(1))
  have b: "deref (store (fillForm_many h w calls)) t = Some template"
    by (simp only: s deref_append [OF assms(2)])
  have c: "pdfLib (this w) \<longrightarrow>
         fillForm h w formData options =
           (Inr (save (if flatten options
                       then flatten_form (doc (fill_document h template formData))
                       else doc (fill_document h template formData))),
            w\<lparr>store := store w @
              [if flatten options then flatten_form (doc (fill_document h template formData))
               else doc (fill_document h template formData)]\<rparr>)"
    using fillForm_with_template [OF assms(1) _ assms(2)] by blast
  from a b p c show ?thesis by (intro conjI)
qed

theorem fillForm_never_touches_the_template_witness:
  "templatePDF (this reason_world) = Some 0 \<and> deref (store reason_world) 0 = Some reason_template
   \<and> pdfLib (this reason_world)
   \<and> deref (store (fillForm_many strict_host reason_world
         [(three_entries, default_options),
          ([(''reason'', reason_entry ''Pt1_reason'')],
           \<lparr>flatten = True, editable = False, includeSignature = True\<rparr>)])) 0
       = Some reason_template
   \<and> this (fillForm_many strict_host reason_world
         [(three_entries, default_options),
          ([(''reason'', reason_entry ''Pt1_reason'')],
           \<lparr>flatten = True, editable = False, includeSignature = True\<rparr>)]) = this reason_world"
proof -
  note t = fillForm_never_touches_the_template
    [OF reason_world_template(1) reason_world_template(3), of strict_host
      "[(three_entries, default_options),
          ([(''reason'', reason_entry ''Pt1_reason'')],
           \<lparr>flatten = True, editable = False, includeSignature = True\<rparr>)]"
      three_entries default_options]
  from t have a: "deref (store (fillForm_many strict_host reason_world
         [(three_entries, default_options),
          ([(''reason'', reason_entry ''Pt1_reason'')],
           \<lparr>flatten = True, editable = False, includeSignature = True\<rparr>)])) 0
       = Some reason_template"
    by (rule conjunct1 [OF conjunct2])
  from t have b: "this (fillForm_many strict_host reason_world
         [(three_entries, default_options),
          ([(''reason'', reason_entry ''Pt1_reason'')],
           \<lparr>flatten = True, editable = False, includeSignature = True\<rparr>)]) = this reason_world"
    by (rule conjunct1 [OF conjunct2 [OF conjunct2]])
  from reason_world_template a b show ?thesis by (intro conjI)
qed

end
